theory Spec2Isabelle
  imports Main "HOL-Library.Word"
begin

unbundle bit_operations_syntax

section \<open>GraalVM native-image cataloger: data model\<close>

text \<open>
  The development embeds the native-image cataloger (package \<open>java\<close>): the payload
  decoder \<open>decompressSbom\<close>, the component mapper \<open>getPackage\<close>, the three
  per-format extractors (\<open>nativeImageElf\<close>, \<open>nativeImageMachO\<close>, \<open>nativeImagePE\<close>),
  the detector \<open>fetchPkgs\<close> and the scan \<open>Catalog\<close>.

  Go's fixed-width unsigned integers are words (\<open>+\<close>, \<open>-\<close> and \<open>*\<close> wrap); a byte
  slice is a list of bytes; \<open>len\<close> is \<open>length\<close>. A function that returns
  \<open>(value, error)\<close> returns \<open>Ok value\<close> or \<open>Err e\<close> (every error return of the source
  carries the zero value), and a run-time panic, which no function of the cataloger
  recovers from, is the third outcome \<open>Panic\<close>.
\<close>

type_synonym byte = "8 word"
type_synonym uint32 = "32 word"
type_synonym uint64 = "64 word"

datatype error =
    SbomLengthOverflows             \<comment> \<open>\<open>the sbom_length symbol overflows the binary\<close>\<close>
  | SbomOverflows                   \<comment> \<open>\<open>the sbom symbol overflows the binary\<close>\<close>
  | MissingSymbols                  \<comment> \<open>\<open>nativeImageMissingSymbolsError\<close>\<close>
  | InvalidIndex                    \<comment> \<open>\<open>nativeImageInvalidIndexError\<close>\<close>
  | MissingExportedDataDirectory    \<comment> \<open>\<open>nativeImageMissingExportedDataDirectoryError\<close>\<close>
  | NoExportSymbolsDataDirectory    \<comment> \<open>\<open>unable to get exportSymbolsDataDirectory from binary\<close>\<close>
  | UnexpectedEOF                   \<comment> \<open>\<open>binary.Read\<close> on too few bytes\<close>
  | FindBinariesFailed error        \<comment> \<open>\<open>failed to find binaries by mime types\<close>, wrapping the cause\<close>
  | LibraryError string             \<comment> \<open>an error returned by a library or collaborator\<close>

datatype panic = SliceBoundsOutOfRange | NilPointerDereference

datatype 'a res = Ok 'a | Err error | Panic panic

subsection \<open>The embedded manifest and the packages made from it\<close>

record nativeImageCPE =
  prop_Name :: string
  prop_Value :: string

record nativeImageComponent =
  comp_Type :: string
  comp_Group :: string
  comp_Name :: string
  comp_Version :: string
  comp_Properties :: "nativeImageCPE list"

record nativeImageCycloneDX =
  cdx_BomFormat :: string
  cdx_SpecVersion :: string
  cdx_Version :: int
  cdx_Components :: "nativeImageComponent list"

text \<open>A parsed CPE identifier (\<open>cpe.CPE\<close>), kept as its attribute strings.\<close>

datatype cpe = CPE "string list"

datatype pkg_Language = Java | UnknownLanguage
datatype pkg_Type = GraalVMNativeImagePkg | UnknownPkg
datatype pkg_MetadataType = JavaMetadataType | UnknownMetadataType

record pkg_PomProperties =
  GroupID :: string

record pkg_JavaMetadata =
  PomProperties :: "pkg_PomProperties option"

record pkg_Package =
  pkg_Name :: string
  pkg_Version :: string
  pkg_Language :: pkg_Language
  pkg_Type :: pkg_Type
  pkg_MetadataType :: pkg_MetadataType
  pkg_FoundBy :: string
  pkg_Metadata :: pkg_JavaMetadata
  pkg_CPEs :: "cpe list"

subsection \<open>Executable containers, as the standard library parses them\<close>

text \<open>\<open>elf.Symbol\<close> and \<open>macho.Symbol\<close>: the name and the value are all the code reads.\<close>

record symbol =
  sym_Name :: string
  sym_Value :: uint64

definition zero_symbol :: symbol where
  "zero_symbol = \<lparr>sym_Name = [], sym_Value = 0\<rparr>"

text \<open>An ELF section or a Mach-O segment: name, address, and what \<open>Data()\<close> returns.\<close>

record region =
  reg_Name :: string
  reg_Addr :: uint64
  reg_Data :: "error + byte list"

record elf_File =
  elf_Symbols :: "error + symbol list"    \<comment> \<open>what \<open>Symbols()\<close> returns\<close>
  elf_Sections :: "region list"

record macho_File =
  macho_Symtab :: "symbol list option"    \<comment> \<open>\<open>Symtab\<close> is a pointer, nil without a symbol table\<close>
  macho_Segments :: "region list"

record pe_DataDirectory =
  dd_VirtualAddress :: uint32
  dd_Size :: uint32

datatype pe_OptionalHeader =
    OptionalHeader32 pe_DataDirectory     \<comment> \<open>the argument is \<open>DataDirectory[0]\<close>\<close>
  | OptionalHeader64 pe_DataDirectory
  | NoOptionalHeader

record pe_Section =
  pes_Name :: string
  pes_VirtualAddress :: uint32
  pes_Data :: "error + byte list"

record pe_File =
  pe_OptionalHeader :: pe_OptionalHeader
  pe_Sections :: "pe_Section list"

record exportContentPE =
  numberOfFunctions :: uint32
  numberOfNames :: uint32
  addressOfFunctions :: uint32
  addressOfNames :: uint32
  addressOfSbom :: uint32
  addressOfSbomLength :: uint32
  addressOfSvmVersion :: uint32

text \<open>
  \<open>nativeImagePE\<close>. The fields \<open>reader\<close>, \<open>t\<close> and \<open>header\<close> of the source are read
  only by \<open>unsafe.Sizeof\<close>, whose values are the constants below.
\<close>

record nativeImagePE =
  pe_file :: pe_File
  exportSymbols :: pe_DataDirectory
  exports :: "byte list"

datatype nativeImage =
    NativeImageElf elf_File
  | NativeImageMachO macho_File
  | NativeImagePE nativeImagePE

text \<open>
  \<open>unsafe.Sizeof(ni.header)\<close>: \<open>exportPrefixPE\<close> holds two \<open>uint32\<close>, two \<open>uint16\<close>
  and two \<open>uint32\<close>, with no padding. \<open>unsafe.Sizeof\<close> of each \<open>uint32\<close> field of
  \<open>exportTypesPE\<close> is 4.
\<close>

definition sizeof_exportPrefixPE :: nat where
  "sizeof_exportPrefixPE = 4 + 4 + 2 + 2 + 4 + 4"

definition sizeof_uint32 :: nat where
  "sizeof_uint32 = 4"

subsection \<open>Libraries and collaborators\<close>

text \<open>
  Code outside the cataloger is a parameter: the three parsers of the standard library,
  \<open>ReadAt\<close> of a reader (size, then offset), gzip (\<open>gzip.NewReader\<close> followed by
  \<open>io.ReadAll\<close>), \<open>json.Unmarshal\<close> into \<open>nativeImageCycloneDX\<close>, \<open>cpe.New\<close>, and
  the two functions of package \<open>unionreader\<close>. \<open>'f\<close> is an open file, \<open>'u\<close> a union
  reader, \<open>'r\<close> one \<open>io.ReaderAt\<close>.
\<close>

record ('f, 'u, 'r) lib =
  elf_NewFile :: "'r \<Rightarrow> error + elf_File"
  macho_NewFile :: "'r \<Rightarrow> error + macho_File"
  pe_NewFile :: "'r \<Rightarrow> error + pe_File"
  ReadAt :: "'r \<Rightarrow> nat \<Rightarrow> uint64 \<Rightarrow> error + byte list"
  gzip_ReadAll :: "byte list \<Rightarrow> error + byte list"
  json_Unmarshal :: "byte list \<Rightarrow> error + nativeImageCycloneDX"
  cpe_New :: "string \<Rightarrow> error + cpe"
  GetUnionReader :: "'f \<Rightarrow> error + 'u"
  GetReaders :: "'u \<Rightarrow> error + 'r list"

text \<open>The resolver of a scan: \<open>'l\<close> is a location.\<close>

record ('l, 'f) resolver =
  FilesByMIMEType :: "error + 'l list"
  FileContentsByLocation :: "'l \<Rightarrow> error + 'f"

section \<open>Slices and decoding\<close>

text \<open>
  \<open>buf[lo:hi]\<close> panics unless \<open>lo \<le> hi\<close> and \<open>hi\<close> is within the buffer. The
  source compares every upper index with \<open>len(buf)\<close> before it slices, so the length
  stands for the capacity here. An index that is a \<open>uint32\<close> or \<open>uint64\<close> enters as
  its value.
\<close>

definition slice_bytes :: "byte list \<Rightarrow> nat \<Rightarrow> nat \<Rightarrow> byte list option" where
  "slice_bytes buf lo hi = (if lo \<le> hi \<and> hi \<le> length buf then Some (take (hi - lo) (drop lo buf)) else None)"

text \<open>Little-endian decoding: the first byte is the least significant.\<close>

fun le_word :: "byte list \<Rightarrow> 'a::len word" where
  "le_word [] = 0"
| "le_word (b # bs) = ucast b OR push_bit 8 (le_word bs)"

text \<open>\<open>binary.Read(p, binary.LittleEndian, &v)\<close> for a \<open>uint64\<close> and a \<open>uint32\<close>.\<close>

definition binary_Read_uint64 :: "byte list \<Rightarrow> error + uint64" where
  "binary_Read_uint64 p = (if length p < 8 then Inl UnexpectedEOF else Inr (le_word (take 8 p)))"

definition binary_Read_uint32 :: "byte list \<Rightarrow> error + uint32" where
  "binary_Read_uint32 p = (if length p < 4 then Inl UnexpectedEOF else Inr (le_word (take 4 p)))"

text \<open>\<open>bytes.HasPrefix\<close>.\<close>

definition HasPrefix :: "byte list \<Rightarrow> byte list \<Rightarrow> bool" where
  "HasPrefix s pre = (length pre \<le> length s \<and> take (length pre) s = pre)"

text \<open>\<open>[]byte(s)\<close> for a string.\<close>

definition bytes_of :: "string \<Rightarrow> byte list" where
  "bytes_of s = map (\<lambda>c. of_nat (of_char c)) s"

section \<open>The cataloger\<close>

definition nativeImageCatalogerName :: string where
  "nativeImageCatalogerName = ''graalvm-native-image-cataloger''"

definition nativeImageSbomSymbol :: string where
  "nativeImageSbomSymbol = ''sbom''"

definition nativeImageSbomLengthSymbol :: string where
  "nativeImageSbomLengthSymbol = ''sbom_length''"

definition nativeImageSbomVersionSymbol :: string where
  "nativeImageSbomVersionSymbol = ''__svm_version_info''"

subsection \<open>getPackage\<close>

text \<open>The loop over \<open>component.Properties\<close>: a value that does not parse is skipped.\<close>

fun getPackage_cpes :: "(string \<Rightarrow> error + cpe) \<Rightarrow> nativeImageCPE list \<Rightarrow> cpe list \<Rightarrow> cpe list" where
  "getPackage_cpes new [] cpes = cpes"
| "getPackage_cpes new (property # properties) cpes =
     (case new (prop_Value property) of
        Inl err \<Rightarrow> getPackage_cpes new properties cpes
      | Inr c \<Rightarrow> getPackage_cpes new properties (cpes @ [c]))"

definition getPackage :: "('f, 'u, 'r) lib \<Rightarrow> nativeImageComponent \<Rightarrow> pkg_Package" where
  "getPackage L component =
     \<lparr>pkg_Name = comp_Name component,
      pkg_Version = comp_Version component,
      pkg_Language = Java,
      pkg_Type = GraalVMNativeImagePkg,
      pkg_MetadataType = JavaMetadataType,
      pkg_FoundBy = nativeImageCatalogerName,
      pkg_Metadata = \<lparr>PomProperties = Some \<lparr>GroupID = comp_Group component\<rparr>\<rparr>,
      pkg_CPEs = getPackage_cpes (cpe_New L) (comp_Properties component) []\<rparr>"

subsection \<open>decompressSbom\<close>

text \<open>The closing loop over \<open>sbomContent.Components\<close>.\<close>

fun decompressSbom_pkgs :: "('f, 'u, 'r) lib \<Rightarrow> nativeImageComponent list \<Rightarrow> pkg_Package list \<Rightarrow> pkg_Package list" where
  "decompressSbom_pkgs L [] pkgs = pkgs"
| "decompressSbom_pkgs L (component # components) pkgs =
     decompressSbom_pkgs L components (pkgs @ [getPackage L component])"

text \<open>
  \<open>buflen\<close> is a non-negative \<open>int\<close>, so \<open>lengthEnd > uint64(buflen)\<close> compares the
  values.
\<close>

definition decompressSbom :: "('f, 'u, 'r) lib \<Rightarrow> byte list \<Rightarrow> uint64 \<Rightarrow> uint64 \<Rightarrow> pkg_Package list res" where
  "decompressSbom L databuf sbomStart lengthStart =
     (let lengthEnd = lengthStart + 8;
          buflen = length databuf
      in if unat lengthEnd > buflen then Err SbomLengthOverflows
         else case slice_bytes databuf (unat lengthStart) (unat lengthEnd) of
           None \<Rightarrow> Panic SliceBoundsOutOfRange
         | Some len \<Rightarrow>
           (case binary_Read_uint64 len of
              Inl err \<Rightarrow> Err err
            | Inr storedLength \<Rightarrow>
              (let sbomEnd = sbomStart + storedLength
               in if unat sbomEnd > buflen then Err SbomOverflows
                  else case slice_bytes databuf (unat sbomStart) (unat sbomEnd) of
                    None \<Rightarrow> Panic SliceBoundsOutOfRange
                  | Some sbomCompressed \<Rightarrow>
                    (case gzip_ReadAll L sbomCompressed of
                       Inl err \<Rightarrow> Err err
                     | Inr output \<Rightarrow>
                       (case json_Unmarshal L output of
                          Inl err \<Rightarrow> Err err
                        | Inr sbomContent \<Rightarrow>
                            Ok (decompressSbom_pkgs L (cdx_Components sbomContent) []))))))"

subsection \<open>ELF and Mach-O\<close>

text \<open>
  The loop over the symbols with its \<open>switch s.Name\<close>: the state is the three
  variables \<open>sbom\<close>, \<open>sbomLength\<close> and \<open>svmVersion\<close>. Mach-O names carry a
  leading underscore, so the three names are arguments.
\<close>

fun scanSymbols :: "string \<Rightarrow> string \<Rightarrow> string \<Rightarrow> symbol list \<Rightarrow> symbol \<times> symbol \<times> symbol \<Rightarrow> symbol \<times> symbol \<times> symbol" where
  "scanSymbols n1 n2 n3 [] st = st"
| "scanSymbols n1 n2 n3 (s # si) (sbom, sbomLength, svmVersion) =
     scanSymbols n1 n2 n3 si
       (if sym_Name s = n1 then (s, sbomLength, svmVersion)
        else if sym_Name s = n2 then (sbom, s, svmVersion)
        else if sym_Name s = n3 then (sbom, sbomLength, s)
        else (sbom, sbomLength, svmVersion))"

text \<open>\<open>bi.Section(name)\<close> and \<open>bi.Segment(name)\<close>: the first region of that name, or nil.\<close>

definition find_region :: "region list \<Rightarrow> string \<Rightarrow> region option" where
  "find_region rs name = find (\<lambda>r. reg_Name r = name) rs"

text \<open>
  \<open>nativeImageElf.fetchPkgs\<close>. Without a \<open>.data\<close> section it returns \<open>nil, err\<close>
  with the \<open>err\<close> of \<open>Symbols()\<close>, which is nil there.
\<close>

definition elf_fetchPkgs :: "('f, 'u, 'r) lib \<Rightarrow> elf_File \<Rightarrow> pkg_Package list res" where
  "elf_fetchPkgs L bi =
     (case elf_Symbols bi of
        Inl err \<Rightarrow> Err err
      | Inr si \<Rightarrow>
        (case scanSymbols nativeImageSbomSymbol nativeImageSbomLengthSymbol
                nativeImageSbomVersionSymbol si (zero_symbol, zero_symbol, zero_symbol) of
           (sbom, sbomLength, svmVersion) \<Rightarrow>
             if sym_Value sbom = 0 \<or> sym_Value sbomLength = 0 \<or> sym_Value svmVersion = 0
             then Err MissingSymbols
             else (case find_region (elf_Sections bi) ''.data'' of
                None \<Rightarrow> Ok []
              | Some dataSection \<Rightarrow>
                (let dataSectionBase = reg_Addr dataSection
                 in case reg_Data dataSection of
                      Inl err \<Rightarrow> Err err
                    | Inr data \<Rightarrow>
                      (let sbomLocation = sym_Value sbom - dataSectionBase;
                           lengthLocation = sym_Value sbomLength - dataSectionBase
                       in decompressSbom L data sbomLocation lengthLocation)))))"

text \<open>
  \<open>nativeImageMachO.fetchPkgs\<close>. \<open>bi.Symtab.Syms\<close> dereferences \<open>bi.Symtab\<close>. A
  missing \<open>__DATA\<close> segment and a failing \<open>Data()\<close> both return \<open>nil, nil\<close>.
\<close>

definition macho_fetchPkgs :: "('f, 'u, 'r) lib \<Rightarrow> macho_File \<Rightarrow> pkg_Package list res" where
  "macho_fetchPkgs L bi =
     (case macho_Symtab bi of
        None \<Rightarrow> Panic NilPointerDereference
      | Some syms \<Rightarrow>
        (case scanSymbols (''_'' @ nativeImageSbomSymbol) (''_'' @ nativeImageSbomLengthSymbol)
                (''_'' @ nativeImageSbomVersionSymbol) syms (zero_symbol, zero_symbol, zero_symbol) of
           (sbom, sbomLength, svmVersion) \<Rightarrow>
             if sym_Value sbom = 0 \<or> sym_Value sbomLength = 0 \<or> sym_Value svmVersion = 0
             then Err MissingSymbols
             else (case find_region (macho_Segments bi) ''__DATA'' of
                None \<Rightarrow> Ok []
              | Some dataSegment \<Rightarrow>
                (case reg_Data dataSegment of
                   Inl err \<Rightarrow> Ok []
                 | Inr databuf \<Rightarrow>
                   (let sbomLocation = sym_Value sbom - reg_Addr dataSegment;
                        lengthLocation = sym_Value sbomLength - reg_Addr dataSegment
                    in decompressSbom L databuf sbomLocation lengthLocation)))))"

subsection \<open>PE: the export directory\<close>

text \<open>
  \<open>fetchExportAttribute\<close>. \<open>i\<close> and \<open>j\<close> are Go \<open>int\<close>s; the callers pass 0 to 3, so
  nothing wraps and \<open>i\<close> is a natural number.
\<close>

definition fetchExportAttribute :: "nativeImagePE \<Rightarrow> nat \<Rightarrow> uint32 res" where
  "fetchExportAttribute ni i =
     (let n = length (exports ni);
          j = sizeof_exportPrefixPE + i * sizeof_uint32
      in if j + 4 \<ge> n then Err InvalidIndex
         else case slice_bytes (exports ni) j (j + 4) of
           None \<Rightarrow> Panic SliceBoundsOutOfRange
         | Some p \<Rightarrow>
           (case binary_Read_uint32 p of
              Inl err \<Rightarrow> Err err
            | Inr attribute \<Rightarrow> Ok attribute))"

text \<open>\<open>fetchExportFunctionPointer\<close>: \<open>n\<close>, \<open>sz\<close> and \<open>j\<close> are \<open>uint32\<close>.\<close>

definition fetchExportFunctionPointer :: "nativeImagePE \<Rightarrow> uint32 \<Rightarrow> uint32 \<Rightarrow> uint32 res" where
  "fetchExportFunctionPointer ni functionsBase i =
     (let n = (of_nat (length (exports ni)) :: uint32);
          sz = (of_nat sizeof_uint32 :: uint32);
          j = functionsBase + i * sz
      in if j + sz \<ge> n then Err InvalidIndex
         else case slice_bytes (exports ni) (unat j) (unat (j + sz)) of
           None \<Rightarrow> Panic SliceBoundsOutOfRange
         | Some p \<Rightarrow>
           (case binary_Read_uint32 p of
              Inl err \<Rightarrow> Err err
            | Inr pointer \<Rightarrow> Ok pointer))"

text \<open>\<open>new(exportContentPE)\<close>.\<close>

definition zero_exportContentPE :: exportContentPE where
  "zero_exportContentPE =
     \<lparr>numberOfFunctions = 0, numberOfNames = 0, addressOfFunctions = 0, addressOfNames = 0,
      addressOfSbom = 0, addressOfSbomLength = 0, addressOfSvmVersion = 0\<rparr>"

definition fetchExportContent :: "nativeImagePE \<Rightarrow> exportContentPE res" where
  "fetchExportContent ni =
     (case fetchExportAttribute ni 0 of
        Panic p \<Rightarrow> Panic p | Err err \<Rightarrow> Err err
      | Ok nf \<Rightarrow>
     (case fetchExportAttribute ni 1 of
        Panic p \<Rightarrow> Panic p | Err err \<Rightarrow> Err err
      | Ok nn \<Rightarrow>
     (case fetchExportAttribute ni 2 of
        Panic p \<Rightarrow> Panic p | Err err \<Rightarrow> Err err
      | Ok af \<Rightarrow>
     (case fetchExportAttribute ni 3 of
        Panic p \<Rightarrow> Panic p | Err err \<Rightarrow> Err err
      | Ok an \<Rightarrow>
          Ok (zero_exportContentPE
                \<lparr>numberOfFunctions := nf, numberOfNames := nn,
                 addressOfFunctions := af, addressOfNames := an\<rparr>)))))"

text \<open>The marker names with the NUL byte appended.\<close>

definition sbomBytes :: "byte list" where
  "sbomBytes = bytes_of (nativeImageSbomSymbol @ [CHR 0x00])"

definition sbomLengthBytes :: "byte list" where
  "sbomLengthBytes = bytes_of (nativeImageSbomLengthSymbol @ [CHR 0x00])"

definition svmVersionInfoBytes :: "byte list" where
  "svmVersionInfoBytes = bytes_of (nativeImageSbomVersionSymbol @ [CHR 0x00])"

text \<open>
  The \<open>switch\<close> of \<open>fetchSbomSymbols\<close>: \<open>name\<close> is \<open>ni.exports[symbolBase:]\<close>, and the
  first marker that is a prefix of it has the index \<open>i\<close> recorded.
\<close>

definition recordMarker :: "byte list \<Rightarrow> uint32 \<Rightarrow> exportContentPE \<Rightarrow> exportContentPE" where
  "recordMarker name i content =
     (if HasPrefix name sbomBytes then content\<lparr>addressOfSbom := i\<rparr>
      else if HasPrefix name sbomLengthBytes then content\<lparr>addressOfSbomLength := i\<rparr>
      else if HasPrefix name svmVersionInfoBytes then content\<lparr>addressOfSvmVersion := i\<rparr>
      else content)"

text \<open>
  The loop of \<open>fetchSbomSymbols\<close> from index \<open>i\<close> on; \<open>content\<close> is the structure the
  source updates through its pointer. Each \<open>return\<close> inside the loop leaves with the
  content as it is.
\<close>

function fetchSbomSymbols_from :: "nativeImagePE \<Rightarrow> uint32 \<Rightarrow> exportContentPE \<Rightarrow> exportContentPE res" where
  "fetchSbomSymbols_from ni i content =
     (if i < numberOfNames content then
        (let n = (of_nat (length (exports ni)) :: uint32);
             j = i * of_nat sizeof_uint32;
             addressBase = addressOfNames content - dd_VirtualAddress (exportSymbols ni);
             k = addressBase + j;
             sz = (of_nat sizeof_uint32 :: uint32)
         in if k + sz \<ge> n then Ok content
            else case slice_bytes (exports ni) (unat k) (unat (k + sz)) of
              None \<Rightarrow> Panic SliceBoundsOutOfRange
            | Some p \<Rightarrow>
              (case binary_Read_uint32 p of
                 Inl err \<Rightarrow> Ok content
               | Inr symbolAddress \<Rightarrow>
                 (let symbolBase = symbolAddress - dd_VirtualAddress (exportSymbols ni)
                  in if symbolBase \<ge> n then Ok content
                     else case slice_bytes (exports ni) (unat symbolBase) (length (exports ni)) of
                       None \<Rightarrow> Panic SliceBoundsOutOfRange
                     | Some name \<Rightarrow>
                         fetchSbomSymbols_from ni (i + 1) (recordMarker name i content))))
      else Ok content)"
  by pat_completeness auto
termination
proof (relation "measure (\<lambda>(ni, i, content). unat (numberOfNames content) - unat i)")
  show "wf (measure (\<lambda>(ni, i, content). unat (numberOfNames content) - unat i))"
    by simp
next
  fix ni :: nativeImagePE and i :: uint32 and content :: exportContentPE
  assume lt: "i < numberOfNames content"
  then have "unat i < unat (numberOfNames content)"
    by (simp add: word_less_nat_alt)
  moreover from lt have "i + 1 \<noteq> 0"
    by (metis add.commute neg_eq_iff_add_eq_0 word_order.extremum_strict)
  then have "unat (i + 1) = Suc (unat i)"
    by (simp add: unatSuc add.commute)
  ultimately show "((ni, i + 1, recordMarker name i content), ni, i, content)
      \<in> measure (\<lambda>(ni, i, content). unat (numberOfNames content) - unat i)" for name
    by (simp add: recordMarker_def)
qed

declare fetchSbomSymbols_from.simps [simp del]

definition fetchSbomSymbols :: "nativeImagePE \<Rightarrow> exportContentPE \<Rightarrow> exportContentPE res" where
  "fetchSbomSymbols ni content = fetchSbomSymbols_from ni 0 content"

text \<open>\<open>bi.Section(".data")\<close> of a PE file.\<close>

definition pe_Section :: "pe_File \<Rightarrow> string \<Rightarrow> pe_Section option" where
  "pe_Section bi name = find (\<lambda>s. pes_Name s = name) (pe_Sections bi)"

text \<open>
  \<open>nativeImagePE.fetchPkgs\<close>. The recorded values \<open>addressOfSbom\<close>,
  \<open>addressOfSbomLength\<close> and \<open>addressOfSvmVersion\<close> are indices into the name-pointer
  array; zero stands for "not found".
\<close>

definition pe_fetchPkgs :: "('f, 'u, 'r) lib \<Rightarrow> nativeImagePE \<Rightarrow> pkg_Package list res" where
  "pe_fetchPkgs L ni =
     (case fetchExportContent ni of
        Panic p \<Rightarrow> Panic p | Err err \<Rightarrow> Err err
      | Ok content0 \<Rightarrow>
     (case fetchSbomSymbols ni content0 of
        Panic p \<Rightarrow> Panic p | Err err \<Rightarrow> Err err
      | Ok content \<Rightarrow>
        if addressOfSbom content = 0 \<or> addressOfSbomLength content = 0
           \<or> addressOfSvmVersion content = 0
        then Err MissingSymbols
        else
          (let functionsBase = addressOfFunctions content - dd_VirtualAddress (exportSymbols ni);
               sbomOffset = addressOfSbom content
           in case fetchExportFunctionPointer ni functionsBase sbomOffset of
                Panic p \<Rightarrow> Panic p | Err err \<Rightarrow> Err err
              | Ok sbomAddress \<Rightarrow>
             (let sbomLengthOffset = addressOfSbomLength content
              in case fetchExportFunctionPointer ni functionsBase sbomLengthOffset of
                   Panic p \<Rightarrow> Panic p | Err err \<Rightarrow> Err err
                 | Ok sbomLengthAddress \<Rightarrow>
                (case pe_Section (pe_file ni) ''.data'' of
                   None \<Rightarrow> Ok []
                 | Some dataSection \<Rightarrow>
                   (case pes_Data dataSection of
                      Inl err \<Rightarrow> Ok []
                    | Inr databuf \<Rightarrow>
                      (let sbomLocation = sbomAddress - pes_VirtualAddress dataSection;
                           lengthLocation = sbomLengthAddress - pes_VirtualAddress dataSection
                       in decompressSbom L databuf (ucast sbomLocation) (ucast lengthLocation))))))))"

subsection \<open>The detector and the scan\<close>

text \<open>The method \<open>fetchPkgs\<close> of the interface \<open>nativeImage\<close>.\<close>

fun ni_fetchPkgs :: "('f, 'u, 'r) lib \<Rightarrow> nativeImage \<Rightarrow> pkg_Package list res" where
  "ni_fetchPkgs L (NativeImageElf bi) = elf_fetchPkgs L bi"
| "ni_fetchPkgs L (NativeImageMachO bi) = macho_fetchPkgs L bi"
| "ni_fetchPkgs L (NativeImagePE ni) = pe_fetchPkgs L ni"

text \<open>
  The three constructors; \<open>fileError\<close> logs and returns \<open>nil, err\<close>. The file name is
  used in log lines only and is left out.
\<close>

definition newElf :: "('f, 'u, 'r) lib \<Rightarrow> 'r \<Rightarrow> error + nativeImage" where
  "newElf L r = (case elf_NewFile L r of Inl err \<Rightarrow> Inl err | Inr bi \<Rightarrow> Inr (NativeImageElf bi))"

definition newMachO :: "('f, 'u, 'r) lib \<Rightarrow> 'r \<Rightarrow> error + nativeImage" where
  "newMachO L r = (case macho_NewFile L r of Inl err \<Rightarrow> Inl err | Inr bi \<Rightarrow> Inr (NativeImageMachO bi))"

text \<open>
  \<open>newPE\<close>. \<open>exports\<close> is made with \<open>Size\<close> bytes and filled by \<open>ReadAt\<close> from its
  start, at the offset \<open>VirtualAddress\<close>.
\<close>

definition newPE_exports :: "('f, 'u, 'r) lib \<Rightarrow> 'r \<Rightarrow> pe_File \<Rightarrow> pe_DataDirectory \<Rightarrow> error + nativeImage" where
  "newPE_exports L r bi exportSymbolsDataDirectory =
     (if dd_Size exportSymbolsDataDirectory = 0 then Inl MissingExportedDataDirectory
      else
        (let exportSymbolsOffset = (ucast (dd_VirtualAddress exportSymbolsDataDirectory) :: uint64);
             size = unat (dd_Size exportSymbolsDataDirectory)
         in case ReadAt L r size exportSymbolsOffset of
              Inl err \<Rightarrow> Inl err
            | Inr bs \<Rightarrow>
                Inr (NativeImagePE
                  \<lparr>pe_file = bi,
                   exportSymbols = exportSymbolsDataDirectory,
                   exports = take size (bs @ replicate size 0)\<rparr>)))"

definition newPE :: "('f, 'u, 'r) lib \<Rightarrow> 'r \<Rightarrow> error + nativeImage" where
  "newPE L r =
     (case pe_NewFile L r of
        Inl err \<Rightarrow> Inl err
      | Inr bi \<Rightarrow>
        (case pe_OptionalHeader bi of
           OptionalHeader32 d \<Rightarrow> newPE_exports L r bi d
         | OptionalHeader64 d \<Rightarrow> newPE_exports L r bi d
         | NoOptionalHeader \<Rightarrow> Inl NoExportSymbolsDataDirectory))"

definition imageformats :: "(('f, 'u, 'r) lib \<Rightarrow> 'r \<Rightarrow> error + nativeImage) list" where
  "imageformats = [newElf, newMachO, newPE]"

text \<open>
  The inner loop of \<open>fetchPkgs\<close>, over the formats for one reader: both \<open>continue\<close>s
  go on to the next format, and so does the end of the body. There is no \<open>break\<close>.
\<close>

fun fetchPkgs_formats :: "('f, 'u, 'r) lib \<Rightarrow> (('f, 'u, 'r) lib \<Rightarrow> 'r \<Rightarrow> error + nativeImage) list \<Rightarrow> 'r \<Rightarrow> pkg_Package list \<Rightarrow> pkg_Package list res" where
  "fetchPkgs_formats L [] r pkgs = Ok pkgs"
| "fetchPkgs_formats L (makeNativeImage # formats) r pkgs =
     (case makeNativeImage L r of
        Inl err \<Rightarrow> fetchPkgs_formats L formats r pkgs
      | Inr ni \<Rightarrow>
        (case ni_fetchPkgs L ni of
           Panic p \<Rightarrow> Panic p
         | Err err \<Rightarrow> fetchPkgs_formats L formats r pkgs
         | Ok newpkgs \<Rightarrow> fetchPkgs_formats L formats r (pkgs @ newpkgs)))"

text \<open>The outer loop, over the readers.\<close>

fun fetchPkgs_readers :: "('f, 'u, 'r) lib \<Rightarrow> 'r list \<Rightarrow> pkg_Package list \<Rightarrow> pkg_Package list res" where
  "fetchPkgs_readers L [] pkgs = Ok pkgs"
| "fetchPkgs_readers L (r # readers) pkgs =
     (case fetchPkgs_formats L imageformats r pkgs of
        Panic p \<Rightarrow> Panic p
      | Err err \<Rightarrow> Err err
      | Ok pkgs' \<Rightarrow> fetchPkgs_readers L readers pkgs')"

text \<open>\<open>fetchPkgs\<close> returns a package list only: a reader that cannot be opened gives nil.\<close>

definition fetchPkgs :: "('f, 'u, 'r) lib \<Rightarrow> 'u \<Rightarrow> pkg_Package list res" where
  "fetchPkgs L reader =
     (case GetReaders L reader of
        Inl err \<Rightarrow> Ok []
      | Inr readers \<Rightarrow> fetchPkgs_readers L readers [])"

text \<open>
  \<open>Catalog\<close>: the loop over the matched locations, then the function. The
  relationships it returns are always nil and are left out.
\<close>

fun Catalog_files :: "('f, 'u, 'r) lib \<Rightarrow> ('l, 'f) resolver \<Rightarrow> 'l list \<Rightarrow> pkg_Package list \<Rightarrow> pkg_Package list res" where
  "Catalog_files L resolver [] pkgs = Ok pkgs"
| "Catalog_files L resolver (location # fileMatches) pkgs =
     (case FileContentsByLocation resolver location of
        Inl err \<Rightarrow> Catalog_files L resolver fileMatches pkgs
      | Inr readerCloser \<Rightarrow>
        (case GetUnionReader L readerCloser of
           Inl err \<Rightarrow> Err err
         | Inr reader \<Rightarrow>
           (case fetchPkgs L reader of
              Panic p \<Rightarrow> Panic p
            | Err err \<Rightarrow> Err err
            | Ok newpkgs \<Rightarrow> Catalog_files L resolver fileMatches (pkgs @ newpkgs))))"

definition Catalog :: "('f, 'u, 'r) lib \<Rightarrow> ('l, 'f) resolver \<Rightarrow> pkg_Package list res" where
  "Catalog L resolver =
     (case FilesByMIMEType resolver of
        Inl err \<Rightarrow> Err (FindBinariesFailed err)
      | Inr fileMatches \<Rightarrow> Catalog_files L resolver fileMatches [])"

section \<open>Notions for the statements, and sample inputs\<close>

subsection \<open>Sample collaborators\<close>

text \<open>
  A library in which every collaborator fails, and one CPE parser that accepts a single
  identifier. Concrete instances of the theorems below start from these.
\<close>

definition failing_lib :: "(nat, nat, nat) lib" where
  "failing_lib =
     \<lparr>elf_NewFile = (\<lambda>r. Inl (LibraryError ''bad magic number'')),
      macho_NewFile = (\<lambda>r. Inl (LibraryError ''invalid magic number'')),
      pe_NewFile = (\<lambda>r. Inl (LibraryError ''unrecognized PE machine'')),
      ReadAt = (\<lambda>r size off. Inl (LibraryError ''EOF'')),
      gzip_ReadAll = (\<lambda>bs. Inl (LibraryError ''gzip: invalid header'')),
      json_Unmarshal = (\<lambda>bs. Inl (LibraryError ''unexpected end of JSON input'')),
      cpe_New = (\<lambda>s. Inl (LibraryError ''failed to parse CPE'')),
      GetUnionReader = (\<lambda>f. Inl (LibraryError ''unable to read contents from binary'')),
      GetReaders = (\<lambda>u. Inl (LibraryError ''unable to open reader''))\<rparr>"

definition sample_cpe_New :: "string \<Rightarrow> error + cpe" where
  "sample_cpe_New s =
     (if s = ''cpe:2.3:a:g:n:1.0:*:*:*:*:*:*:*''
      then Inr (CPE [''a'', ''g'', ''n'', ''1.0''])
      else Inl (LibraryError ''failed to parse CPE''))"

definition sample_component :: nativeImageComponent where
  "sample_component =
     \<lparr>comp_Type = ''library'', comp_Group = ''g'', comp_Name = ''n'', comp_Version = ''1.0'',
      comp_Properties =
        [\<lparr>prop_Name = ''syft:cpe23'', prop_Value = ''not a cpe''\<rparr>,
         \<lparr>prop_Name = ''syft:cpe23'', prop_Value = ''cpe:2.3:a:g:n:1.0:*:*:*:*:*:*:*''\<rparr>]\<rparr>"

definition bare_component :: nativeImageComponent where
  "bare_component =
     \<lparr>comp_Type = ''library'', comp_Group = ''h'', comp_Name = ''m'', comp_Version = ''2.0'',
      comp_Properties = [\<lparr>prop_Name = ''syft:cpe23'', prop_Value = ''not a cpe''\<rparr>]\<rparr>"

subsection \<open>Markers of a symbol table\<close>

text \<open>
  The symbol a marker name resolves to: the last symbol of that name, if there is one.
  The value of a marker is the value of that symbol, and zero without one.
\<close>

fun last_named :: "string \<Rightarrow> symbol list \<Rightarrow> symbol option" where
  "last_named n [] = None"
| "last_named n (s # si) =
     (case last_named n si of
        Some x \<Rightarrow> Some x
      | None \<Rightarrow> if sym_Name s = n then Some s else None)"

definition marker_value :: "string \<Rightarrow> symbol list \<Rightarrow> uint64" where
  "marker_value n si = (case last_named n si of None \<Rightarrow> 0 | Some s \<Rightarrow> sym_Value s)"

subsection \<open>The ELF scenario\<close>

text \<open>
  The manifest text of the scenario, the document it parses to and the package expected
  from it; then one ELF image of that shape, with a payload of 37 bytes and a library
  that inflates and parses exactly that payload.
\<close>

definition scenario_text :: string where
  "scenario_text = ''{\"bomFormat\":\"CycloneDX\",\"specVersion\":\"1.4\",\"version\":1,\"components\":[{\"type\":\"library\",\"group\":\"g\",\"name\":\"n\",\"version\":\"1.0\",\"properties\":[]}]}''"

definition scenario_document :: nativeImageCycloneDX where
  "scenario_document =
     \<lparr>cdx_BomFormat = ''CycloneDX'', cdx_SpecVersion = ''1.4'', cdx_Version = 1,
      cdx_Components =
        [\<lparr>comp_Type = ''library'', comp_Group = ''g'', comp_Name = ''n'',
          comp_Version = ''1.0'', comp_Properties = []\<rparr>]\<rparr>"

definition scenario_package :: pkg_Package where
  "scenario_package =
     \<lparr>pkg_Name = ''n'', pkg_Version = ''1.0'', pkg_Language = Java,
      pkg_Type = GraalVMNativeImagePkg, pkg_MetadataType = JavaMetadataType,
      pkg_FoundBy = ''graalvm-native-image-cataloger'',
      pkg_Metadata = \<lparr>PomProperties = Some \<lparr>GroupID = ''g''\<rparr>\<rparr>,
      pkg_CPEs = []\<rparr>"

definition scenario_payload :: "byte list" where
  "scenario_payload = [0x1f, 0x8b, 0x08] @ replicate 34 0"

definition scenario_data :: "byte list" where
  "scenario_data = replicate 16 0 @ [37, 0, 0, 0, 0, 0, 0, 0] @ replicate 8 0 @ scenario_payload"

definition scenario_elf :: elf_File where
  "scenario_elf =
     \<lparr>elf_Symbols = Inr
        [\<lparr>sym_Name = ''main'', sym_Value = 0x1000\<rparr>,
         \<lparr>sym_Name = ''__svm_version_info'', sym_Value = 0x2008\<rparr>,
         \<lparr>sym_Name = ''sbom_length'', sym_Value = 0x2010\<rparr>,
         \<lparr>sym_Name = ''sbom'', sym_Value = 0x2020\<rparr>],
      elf_Sections =
        [\<lparr>reg_Name = ''.text'', reg_Addr = 0x1000, reg_Data = Inr []\<rparr>,
         \<lparr>reg_Name = ''.data'', reg_Addr = 0x2000, reg_Data = Inr scenario_data\<rparr>]\<rparr>"

definition scenario_lib :: "(nat, nat, nat) lib" where
  "scenario_lib = failing_lib
     \<lparr>gzip_ReadAll := (\<lambda>bs. if bs = scenario_payload then Inr (bytes_of scenario_text)
                             else Inl (LibraryError ''gzip: invalid header'')),
      json_Unmarshal := (\<lambda>bs. if bs = bytes_of scenario_text then Inr scenario_document
                             else Inl (LibraryError ''invalid character''))\<rparr>"

subsection \<open>Markers of an export directory\<close>

text \<open>
  What the walk reads at index \<open>i\<close> of the name-pointer array: the bytes from the target
  of the \<open>i\<close>-th name pointer to the end of \<open>exports\<close>, where the checks of the walk let
  both reads through; nothing where the walk stops or the slice fails.
\<close>

definition exportedName :: "nativeImagePE \<Rightarrow> exportContentPE \<Rightarrow> uint32 \<Rightarrow> byte list option" where
  "exportedName ni content i =
     (let n = (of_nat (length (exports ni)) :: uint32);
          k = addressOfNames content - dd_VirtualAddress (exportSymbols ni) + i * 4
      in if k + 4 \<ge> n then None
         else case slice_bytes (exports ni) (unat k) (unat (k + 4)) of
           None \<Rightarrow> None
         | Some p \<Rightarrow>
           (case binary_Read_uint32 p of
              Inl err \<Rightarrow> None
            | Inr symbolAddress \<Rightarrow>
              (let symbolBase = symbolAddress - dd_VirtualAddress (exportSymbols ni)
               in if symbolBase \<ge> n then None
                  else slice_bytes (exports ni) (unat symbolBase) (length (exports ni)))))"

text \<open>
  The three markers, the bytes the walk compares with, the field of the content that
  records a marker's index, and "the \<open>i\<close>-th exported name is marker \<open>m\<close>".
\<close>

datatype marker = Sbom | SbomLength | SvmVersion

fun markerBytes :: "marker \<Rightarrow> byte list" where
  "markerBytes Sbom = sbomBytes"
| "markerBytes SbomLength = sbomLengthBytes"
| "markerBytes SvmVersion = svmVersionInfoBytes"

fun markerIndex :: "marker \<Rightarrow> exportContentPE \<Rightarrow> uint32" where
  "markerIndex Sbom content = addressOfSbom content"
| "markerIndex SbomLength content = addressOfSbomLength content"
| "markerIndex SvmVersion content = addressOfSvmVersion content"

definition namesMarker :: "nativeImagePE \<Rightarrow> exportContentPE \<Rightarrow> uint32 \<Rightarrow> marker \<Rightarrow> bool" where
  "namesMarker ni content i m =
     (case exportedName ni content i of
        None \<Rightarrow> False
      | Some name \<Rightarrow> HasPrefix name (markerBytes m))"

text \<open>
  The offsets the walk computes at index \<open>i\<close>: \<open>k\<close>, where the \<open>i\<close>-th name pointer
  lies in \<open>exports\<close>, and \<open>symbolBase\<close>, where the name it points to lies.
\<close>

definition namePointerOffset :: "nativeImagePE \<Rightarrow> exportContentPE \<Rightarrow> uint32 \<Rightarrow> uint32" where
  "namePointerOffset ni content i =
     addressOfNames content - dd_VirtualAddress (exportSymbols ni) + i * 4"

definition nameOffset :: "nativeImagePE \<Rightarrow> exportContentPE \<Rightarrow> uint32 \<Rightarrow> uint32" where
  "nameOffset ni content i =
     le_word (take 4 (drop (unat (namePointerOffset ni content i)) (exports ni)))
       - dd_VirtualAddress (exportSymbols ni)"

text \<open>The offset \<open>j\<close> of the function pointer with index \<open>i\<close>, as \<open>fetchPkgs\<close> asks for it.\<close>

definition functionPointerOffset :: "nativeImagePE \<Rightarrow> exportContentPE \<Rightarrow> uint32 \<Rightarrow> uint32" where
  "functionPointerOffset ni content i =
     addressOfFunctions content - dd_VirtualAddress (exportSymbols ni) + i * 4"

subsection \<open>Sample PE images\<close>

text \<open>
  An export directory at \<open>0x3000\<close>: the header (four functions, the function pointers at
  offset 84), the names \<open>hello\<close>, \<open>sbom\<close>, \<open>sbom_length\<close> and \<open>__svm_version_info\<close> at
  offsets 40, 46, 51 and 63, the function pointers, the name pointers at offset 100 and
  a tail. The images below differ in the number of names, the address of the
  name-pointer array, the two arrays and the tail; each has the \<open>.data\<close> section of the
  ELF scenario at \<open>0x2000\<close>.
\<close>

definition le_bytes32 :: "uint32 \<Rightarrow> byte list" where
  "le_bytes32 w = [ucast w, ucast (drop_bit 8 w), ucast (drop_bit 16 w), ucast (drop_bit 24 w)]"

definition sample_exports :: "uint32 \<Rightarrow> uint32 \<Rightarrow> uint32 list \<Rightarrow> uint32 list \<Rightarrow> byte list \<Rightarrow> byte list" where
  "sample_exports nnames addrNames functionPointers namePointers tail =
     replicate 20 0 @ le_bytes32 4 @ le_bytes32 nnames @ le_bytes32 0x3054 @ le_bytes32 addrNames
     @ le_bytes32 0
     @ bytes_of (''hello'' @ [CHR 0x00]) @ sbomBytes @ sbomLengthBytes @ svmVersionInfoBytes @ [0, 0]
     @ concat (map le_bytes32 functionPointers) @ concat (map le_bytes32 namePointers) @ tail"

definition sample_pe :: "byte list \<Rightarrow> nativeImagePE" where
  "sample_pe ex =
     \<lparr>pe_file =
        \<lparr>pe_OptionalHeader =
           OptionalHeader64 \<lparr>dd_VirtualAddress = 0x3000, dd_Size = of_nat (length ex)\<rparr>,
         pe_Sections =
           [\<lparr>pes_Name = ''.text'', pes_VirtualAddress = 0x1000, pes_Data = Inr []\<rparr>,
            \<lparr>pes_Name = ''.data'', pes_VirtualAddress = 0x2000, pes_Data = Inr scenario_data\<rparr>]\<rparr>,
      exportSymbols = \<lparr>dd_VirtualAddress = 0x3000, dd_Size = of_nat (length ex)\<rparr>,
      exports = ex\<rparr>"

definition pe_regular :: nativeImagePE where
  "pe_regular = sample_pe (sample_exports 4 0x3064 [0x1000, 0x2020, 0x2010, 0x2008]
                   [0x3028, 0x302E, 0x3033, 0x303F] [0, 0, 0, 0])"

definition pe_sbom_first :: nativeImagePE where
  "pe_sbom_first = sample_pe (sample_exports 4 0x3064 [0x2020, 0x2010, 0x2008, 0x1000]
                   [0x302E, 0x3033, 0x303F, 0x3028] [0, 0, 0, 0])"

definition pe_sbom_twice :: nativeImagePE where
  "pe_sbom_twice = sample_pe (sample_exports 4 0x3064 [0x2020, 0x2010, 0x2008, 0x2020]
                   [0x302E, 0x3033, 0x303F, 0x302E] [0, 0, 0, 0])"

definition pe_overlong_names :: nativeImagePE where
  "pe_overlong_names = sample_pe (sample_exports 5 0x3064 [0x1000, 0x2020, 0x2010, 0x2008]
                   [0x3028, 0x302E, 0x3033, 0x303F] [0, 0, 0])"

definition pe_name_at_end :: nativeImagePE where
  "pe_name_at_end = sample_pe (sample_exports 4 0x3064 [0x1000, 0x2020, 0x2010, 0x2008]
                   [0x3028, 0x3074, 0x3033, 0x303F] sbomBytes)"

definition pe_no_names :: nativeImagePE where
  "pe_no_names = sample_pe (sample_exports 0 0x3064 [0x1000, 0x2020, 0x2010, 0x2008]
                   [0x3028, 0x302E, 0x3033, 0x303F] [0, 0, 0, 0])"

text \<open>
  The regular directory with its second name pointer aimed outside the directory, and a
  directory cut off after its header: 36 bytes, so that the last header attribute ends
  where the buffer ends.
\<close>

definition pe_stray_name :: nativeImagePE where
  "pe_stray_name = sample_pe (sample_exports 4 0x3064 [0x1000, 0x2020, 0x2010, 0x2008]
                   [0x3028, 0x4000, 0x3033, 0x303F] [0, 0, 0, 0])"

definition pe_header_only :: nativeImagePE where
  "pe_header_only = sample_pe ([0,0,0,0,0,0,0,0,0,0,0,0,0,0,0,0,0,0,0,0] @ le_bytes32 4
                   @ le_bytes32 4 @ le_bytes32 0x3054 @ le_bytes32 0x3064)"

text \<open>
  The regular directory with the low byte of \<open>addressOfFunctions\<close> replaced, which moves
  the function-pointer array towards the end of the buffer.
\<close>

definition pe_functions_at :: "byte \<Rightarrow> nativeImagePE" where
  "pe_functions_at b = sample_pe ((sample_exports 4 0x3064 [0x1000, 0x2020, 0x2010, 0x2008]
                   [0x3028, 0x302E, 0x3033, 0x303F] [0, 0, 0, 0])[28 := b])"

text \<open>
  An export directory of 40 bytes that exports no marker: one name is declared, and the
  name-pointer array is said to lie 4 bytes below the directory.
\<close>

definition pe_wrapping :: nativeImagePE where
  "pe_wrapping = sample_pe ([0,0,0,0,0,0,0,0,0,0,0,0,0,0,0,0,0,0,0,0] @ le_bytes32 0 @ le_bytes32 1
                   @ le_bytes32 0 @ le_bytes32 0x2FFC @ [0, 0, 0, 0])"

text \<open>The header of the sample directories with four names, as \<open>fetchExportContent\<close> reads it.\<close>

definition sample_content :: exportContentPE where
  "sample_content =
     \<lparr>numberOfFunctions = 4, numberOfNames = 4, addressOfFunctions = 0x3054,
      addressOfNames = 0x3064, addressOfSbom = 0, addressOfSbomLength = 0,
      addressOfSvmVersion = 0\<rparr>"

text \<open>
  The library of the ELF scenario, in which every reader is the PE image \<open>ni\<close> and every
  union reader holds the one reader 0.
\<close>

definition pe_scenario_lib :: "nativeImagePE \<Rightarrow> (nat, nat, nat) lib" where
  "pe_scenario_lib ni = scenario_lib
     \<lparr>pe_NewFile := (\<lambda>r. Inr (pe_file ni)),
      ReadAt := (\<lambda>r size off. Inr (exports ni)),
      GetReaders := (\<lambda>u. Inr [0])\<rparr>"

subsection \<open>Sample Mach-O and ELF images, and a scan\<close>


text \<open>A Mach-O image without a symbol table.\<close>

definition macho_no_symtab :: macho_File where
  "macho_no_symtab = \<lparr>macho_Symtab = None, macho_Segments = []\<rparr>"


text \<open>The ELF scenario with the marker \<open>sbom_length\<close> 8 bytes below the base of \<open>.data\<close>.\<close>

definition elf_low_length :: elf_File where
  "elf_low_length =
     \<lparr>elf_Symbols = Inr
        [\<lparr>sym_Name = ''__svm_version_info'', sym_Value = 0x2008\<rparr>,
         \<lparr>sym_Name = ''sbom_length'', sym_Value = 0x1FF8\<rparr>,
         \<lparr>sym_Name = ''sbom'', sym_Value = 0x2020\<rparr>],
      elf_Sections =
        [\<lparr>reg_Name = ''.data'', reg_Addr = 0x2000, reg_Data = Inr scenario_data\<rparr>]\<rparr>"

text \<open>
  A scan of two files: location 0 is \<open>elf_low_length\<close>, every other location is the ELF
  image of the scenario. Locations, open files, union readers and readers are numbers,
  and each file has one reader.
\<close>

definition scan_lib :: "(nat, nat, nat) lib" where
  "scan_lib = scenario_lib
     \<lparr>elf_NewFile := (\<lambda>r. if r = 0 then Inr elf_low_length else Inr scenario_elf),
      GetUnionReader := (\<lambda>f. Inr f),
      GetReaders := (\<lambda>u. Inr [u])\<rparr>"

definition scan_resolver :: "nat list \<Rightarrow> (nat, nat) resolver" where
  "scan_resolver locations =
     \<lparr>FilesByMIMEType = Inr locations, FileContentsByLocation = (\<lambda>l. Inr l)\<rparr>"

subsection \<open>What one format contributes for one reader\<close>




section \<open>Auxiliary facts\<close>

lemma getPackage_cpes_acc:
  "getPackage_cpes new ps acc =
     acc @ concat (map (\<lambda>p. case new (prop_Value p) of Inl e \<Rightarrow> [] | Inr c \<Rightarrow> [c]) ps)"
  by (induction ps arbitrary: acc) (auto split: sum.splits)

lemma decompressSbom_pkgs_acc:
  "decompressSbom_pkgs L cs acc = acc @ map (getPackage L) cs"
  by (induction cs arbitrary: acc) auto

lemma unat_plus_no_wrap:
  fixes a b :: "'a::len word"
  assumes "unat a + unat b < 2 ^ LENGTH('a)"
  shows "unat (a + b) = unat a + unat b"
  using assms by (simp add: unat_add_lem)

text \<open>Where neither sum wraps, the two checks of \<open>decompressSbom\<close> do keep it from a panic.\<close>

lemma decompressSbom_no_wrap:
  assumes "unat lengthStart + 8 < 2 ^ 64"
      and "unat sbomStart + unat (le_word (take 8 (drop (unat lengthStart) databuf)) :: uint64) < 2 ^ 64"
  shows "decompressSbom L databuf sbomStart lengthStart \<noteq> Panic p"
proof -
  have e1: "unat (lengthStart + 8) = unat lengthStart + 8"
    using assms(1) unat_plus_no_wrap [of lengthStart 8] by simp
  have e2: "unat (sbomStart + le_word (take 8 (drop (unat lengthStart) databuf)))
      = unat sbomStart + unat (le_word (take 8 (drop (unat lengthStart) databuf)) :: uint64)"
    using assms(2) unat_plus_no_wrap [of sbomStart "le_word (take 8 (drop (unat lengthStart) databuf))"]
    by simp
  show ?thesis
    by (auto simp: decompressSbom_def Let_def slice_bytes_def binary_Read_uint64_def e1 e2
        split: sum.splits option.splits if_splits)
qed

lemma scanSymbols_last_named:
  assumes "n1 \<noteq> n2" "n1 \<noteq> n3" "n2 \<noteq> n3"
  shows "scanSymbols n1 n2 n3 si (a, b, c) =
     (case last_named n1 si of None \<Rightarrow> a | Some s \<Rightarrow> s,
      case last_named n2 si of None \<Rightarrow> b | Some s \<Rightarrow> s,
      case last_named n3 si of None \<Rightarrow> c | Some s \<Rightarrow> s)"
  using assms
  by (induction si arbitrary: a b c) (auto split: option.splits)


lemma marker_names_distinct:
  "nativeImageSbomSymbol \<noteq> nativeImageSbomLengthSymbol"
  "nativeImageSbomSymbol \<noteq> nativeImageSbomVersionSymbol"
  "nativeImageSbomLengthSymbol \<noteq> nativeImageSbomVersionSymbol"
  by (simp_all add: nativeImageSbomSymbol_def nativeImageSbomLengthSymbol_def
        nativeImageSbomVersionSymbol_def)

lemma elf_scan_values:
  "scanSymbols nativeImageSbomSymbol nativeImageSbomLengthSymbol nativeImageSbomVersionSymbol
       si (zero_symbol, zero_symbol, zero_symbol) = (sbom, sbomLength, svmVersion)
   \<Longrightarrow> sym_Value sbom = marker_value nativeImageSbomSymbol si
     \<and> sym_Value sbomLength = marker_value nativeImageSbomLengthSymbol si
     \<and> sym_Value svmVersion = marker_value nativeImageSbomVersionSymbol si"
  by (auto simp: scanSymbols_last_named marker_names_distinct marker_value_def zero_symbol_def
        split: option.splits)

lemma decompressSbom_scenario:
  assumes len: "take 8 (drop 16 data) = [37, 0, 0, 0, 0, 0, 0, 0]"
      and pl: "length payload = 37" "take 37 (drop 32 data) = payload"
      and gz: "gzip_ReadAll L payload = Inr text"
      and js: "json_Unmarshal L text = Inr doc"
  shows "decompressSbom L data 0x20 0x10 = Ok (map (getPackage L) (cdx_Components doc))"
proof -
  from len have "length (take 8 (drop 16 data)) = 8"
    by simp
  then have l24: "24 \<le> length data"
    by simp
  from pl have "length (take 37 (drop 32 data)) = 37"
    by simp
  then have l69: "69 \<le> length data"
    by simp
  have s1: "slice_bytes data 16 24 = Some [37, 0, 0, 0, 0, 0, 0, 0]"
    using len l24 by (simp add: slice_bytes_def)
  have s2: "slice_bytes data 32 69 = Some payload"
    using pl l69 by (simp add: slice_bytes_def)
  have lw: "(le_word [37, 0, 0, 0, 0, 0, 0, 0] :: uint64) = 37"
    by simp
  show ?thesis
    using l69 by (simp add: decompressSbom_def Let_def s1 s2 binary_Read_uint64_def lw gz js decompressSbom_pkgs_acc)
qed

lemma fetchExportAttribute_eq:
  "fetchExportAttribute ni i =
     (if 20 + i * 4 + 4 \<ge> length (exports ni) then Err InvalidIndex
      else Ok (le_word (take 4 (drop (20 + i * 4) (exports ni)))))"
  by (auto simp: fetchExportAttribute_def Let_def sizeof_exportPrefixPE_def sizeof_uint32_def
        slice_bytes_def binary_Read_uint32_def)

lemma unat_of_nat_length32:
  "length (xs :: byte list) < 2 ^ 32 \<Longrightarrow> unat (of_nat (length xs) :: uint32) = length xs"
  by (simp add: unat_of_nat)

lemma fetchExportFunctionPointer_eq:
  assumes "length (exports ni) < 2 ^ 32"
      and "unat (functionsBase + i * 4) + 4 < 2 ^ 32"
  shows "fetchExportFunctionPointer ni functionsBase i =
     (if unat (functionsBase + i * 4) + 4 \<ge> length (exports ni) then Err InvalidIndex
      else Ok (le_word (take 4 (drop (unat (functionsBase + i * 4)) (exports ni)))))"
proof -
  have e: "unat (functionsBase + i * 4 + 4) = unat (functionsBase + i * 4) + 4"
    using assms(2) unat_plus_no_wrap [of "functionsBase + i * 4" 4] by simp
  show ?thesis
    using assms(1)
    by (auto simp: fetchExportFunctionPointer_def Let_def sizeof_uint32_def slice_bytes_def
          binary_Read_uint32_def word_le_nat_alt unat_of_nat_length32 e)
qed

lemma walk_done:
  "\<not> i < numberOfNames content \<Longrightarrow> fetchSbomSymbols_from ni i content = Ok content"
  by (simp add: fetchSbomSymbols_from.simps)

lemma walk_step:
  assumes "i < numberOfNames content" and "exportedName ni content i = Some name"
  shows "fetchSbomSymbols_from ni i content
       = fetchSbomSymbols_from ni (i + 1) (recordMarker name i content)"
  using assms
  by (subst fetchSbomSymbols_from.simps)
     (auto simp: exportedName_def Let_def sizeof_uint32_def split: option.splits sum.splits if_splits)

lemma walk_stop_pointer:
  assumes "length (exports ni) < 2 ^ 32"
      and "unat (addressOfNames content - dd_VirtualAddress (exportSymbols ni) + i * 4) + 4 < 2 ^ 32"
      and "unat (addressOfNames content - dd_VirtualAddress (exportSymbols ni) + i * 4) + 4 \<ge> length (exports ni)"
  shows "fetchSbomSymbols_from ni i content = Ok content"
proof -
  let ?k = "addressOfNames content - dd_VirtualAddress (exportSymbols ni) + i * 4"
  have e: "unat (?k + 4) = unat ?k + 4"
    using assms(2) unat_plus_no_wrap [of ?k 4] by simp
  show ?thesis
    using assms(1,3)
    by (subst fetchSbomSymbols_from.simps)
       (simp add: Let_def sizeof_uint32_def word_le_nat_alt unat_of_nat_length32 e)
qed


lemma HasPrefix_nth: "HasPrefix s p \<Longrightarrow> i < length p \<Longrightarrow> s ! i = p ! i"
  by (metis HasPrefix_def nth_take)

lemma markerBytes_values:
  "sbomBytes = [115, 98, 111, 109, 0]"
  "sbomLengthBytes = [115, 98, 111, 109, 95, 108, 101, 110, 103, 116, 104, 0]"
  "svmVersionInfoBytes = [95, 95, 115, 118, 109, 95, 118, 101, 114, 115, 105, 111, 110, 95, 105, 110, 102, 111, 0]"
  by (simp_all add: sbomBytes_def sbomLengthBytes_def svmVersionInfoBytes_def bytes_of_def
        nativeImageSbomSymbol_def nativeImageSbomLengthSymbol_def nativeImageSbomVersionSymbol_def)

lemma markerBytes_exclusive:
  assumes "HasPrefix name (markerBytes m)" and "HasPrefix name (markerBytes m')"
  shows "m = m'"
proof -
  have a: "HasPrefix name sbomBytes \<Longrightarrow> name ! 4 = 0 \<and> name ! 0 = 115"
    using HasPrefix_nth [of name sbomBytes 4] HasPrefix_nth [of name sbomBytes 0]
    by (simp add: markerBytes_values)
  have b: "HasPrefix name sbomLengthBytes \<Longrightarrow> name ! 4 = 95 \<and> name ! 0 = 115"
    using HasPrefix_nth [of name sbomLengthBytes 4] HasPrefix_nth [of name sbomLengthBytes 0]
    by (simp add: markerBytes_values)
  have c: "HasPrefix name svmVersionInfoBytes \<Longrightarrow> name ! 0 = 95"
    using HasPrefix_nth [of name svmVersionInfoBytes 0]
    by (simp add: markerBytes_values)
  show ?thesis
    using assms a b c by (cases m; cases m') auto
qed

lemma markerIndex_recordMarker:
  "markerIndex m (recordMarker name i content)
     = (if HasPrefix name (markerBytes m) then i else markerIndex m content)"
proof -
  have "\<not> (HasPrefix name sbomBytes \<and> HasPrefix name sbomLengthBytes)"
    using markerBytes_exclusive [of name Sbom SbomLength] by auto
  moreover have "\<not> (HasPrefix name sbomBytes \<and> HasPrefix name svmVersionInfoBytes)"
    using markerBytes_exclusive [of name Sbom SvmVersion] by auto
  moreover have "\<not> (HasPrefix name sbomLengthBytes \<and> HasPrefix name svmVersionInfoBytes)"
    using markerBytes_exclusive [of name SbomLength SvmVersion] by auto
  ultimately show ?thesis
    by (cases m) (auto simp: recordMarker_def)
qed

lemma recordMarker_fields [simp]:
  "numberOfNames (recordMarker name i content) = numberOfNames content"
  "numberOfFunctions (recordMarker name i content) = numberOfFunctions content"
  "addressOfFunctions (recordMarker name i content) = addressOfFunctions content"
  "addressOfNames (recordMarker name i content) = addressOfNames content"
  by (simp_all add: recordMarker_def)

lemma exportedName_recordMarker [simp]:
  "exportedName ni (recordMarker name i content) i' = exportedName ni content i'"
  by (simp add: exportedName_def)

lemma namesMarker_recordMarker [simp]:
  "namesMarker ni (recordMarker name i content) i' m = namesMarker ni content i' m"
  by (simp add: namesMarker_def)

lemma word_lt_succ:
  fixes i :: "'a::len word"
  assumes "i < n"
  shows "unat (i + 1) = Suc (unat i)" and "i < i + 1"
proof -
  from assms have "i + 1 \<noteq> 0"
    by (metis add.commute neg_eq_iff_add_eq_0 word_order.extremum_strict)
  then show "unat (i + 1) = Suc (unat i)"
    by (simp add: unatSuc add.commute)
  then show "i < i + 1"
    by (simp add: word_less_nat_alt)
qed

lemma walk_never_Err: "fetchSbomSymbols_from ni i content \<noteq> Err e"
proof (induction "unat (numberOfNames content) - unat i" arbitrary: i content rule: less_induct)
  case less
  show ?case
  proof (cases "i < numberOfNames content")
    case False
    then show ?thesis by (simp add: walk_done)
  next
    case lt: True
    then have dec: "unat (numberOfNames content) - unat (i + 1) < unat (numberOfNames content) - unat i"
      using word_lt_succ(1) [OF lt] by (simp add: word_less_nat_alt)
    have "fetchSbomSymbols_from ni (i + 1) (recordMarker name i content) \<noteq> Err e" for name
      using less [of "recordMarker name i content" "i + 1"] dec by simp
    then show ?thesis
      by (subst fetchSbomSymbols_from.simps)
         (auto simp: Let_def split: option.splits sum.splits)
  qed
qed

lemma walk_marker_index:
  "fetchSbomSymbols_from ni i content = Ok content' \<Longrightarrow>
     markerIndex m content' = markerIndex m content
     \<or> (\<exists>i'. i \<le> i' \<and> i' < numberOfNames content \<and> namesMarker ni content i' m
              \<and> markerIndex m content' = i')"
proof (induction "unat (numberOfNames content) - unat i" arbitrary: i content rule: less_induct)
  case less
  show ?case
  proof (cases "i < numberOfNames content")
    case False
    with less(2) show ?thesis
      by (simp add: walk_done)
  next
    case lt: True
    then have dec: "unat (numberOfNames content) - unat (i + 1) < unat (numberOfNames content) - unat i"
      using word_lt_succ(1) [OF lt] by (simp add: word_less_nat_alt)
    show ?thesis
    proof (cases "exportedName ni content i")
      case None
      with less(2) lt have "content' = content"
        by (subst (asm) fetchSbomSymbols_from.simps)
           (auto simp: exportedName_def slice_bytes_def Let_def sizeof_uint32_def
              split: option.splits sum.splits if_splits)
      then show ?thesis by simp
    next
      case (Some name)
      from lt Some less(2)
      have rec: "fetchSbomSymbols_from ni (i + 1) (recordMarker name i content) = Ok content'"
        by (simp add: walk_step)
      from less(1) [of "recordMarker name i content" "i + 1", OF _ rec] dec
      have ih: "markerIndex m content' = markerIndex m (recordMarker name i content)
          \<or> (\<exists>i'. i + 1 \<le> i' \<and> i' < numberOfNames content \<and> namesMarker ni content i' m
              \<and> markerIndex m content' = i')"
        by simp
      have here: "HasPrefix name (markerBytes m) \<Longrightarrow> namesMarker ni content i m"
        using Some by (simp add: namesMarker_def)
      have up: "i + 1 \<le> i' \<Longrightarrow> i \<le> i'" for i'
        using word_lt_succ(2) [OF lt] by simp
      from ih show ?thesis
        using lt here up by (auto simp: markerIndex_recordMarker split: if_splits)
    qed
  qed
qed

lemma walk_keeps_header:
  "fetchSbomSymbols_from ni i content = Ok content' \<Longrightarrow>
     numberOfNames content' = numberOfNames content
     \<and> numberOfFunctions content' = numberOfFunctions content
     \<and> addressOfFunctions content' = addressOfFunctions content
     \<and> addressOfNames content' = addressOfNames content"
proof (induction "unat (numberOfNames content) - unat i" arbitrary: i content rule: less_induct)
  case less
  show ?case
  proof (cases "i < numberOfNames content")
    case False
    with less(2) show ?thesis
      by (simp add: walk_done)
  next
    case lt: True
    then have dec: "unat (numberOfNames content) - unat (i + 1) < unat (numberOfNames content) - unat i"
      using word_lt_succ(1) [OF lt] by (simp add: word_less_nat_alt)
    show ?thesis
    proof (cases "exportedName ni content i")
      case None
      with less(2) lt have "content' = content"
        by (subst (asm) fetchSbomSymbols_from.simps)
           (auto simp: exportedName_def slice_bytes_def Let_def sizeof_uint32_def
              split: option.splits sum.splits if_splits)
      then show ?thesis by simp
    next
      case (Some name)
      from lt Some less(2)
      have rec: "fetchSbomSymbols_from ni (i + 1) (recordMarker name i content) = Ok content'"
        by (simp add: walk_step)
      from less(1) [of "recordMarker name i content" "i + 1", OF _ rec] dec
      show ?thesis
        by simp
    qed
  qed
qed


lemma namePointer_offset_unat:
  fixes base i :: uint32
  assumes "unat base + 4 * unat i + 4 < 2 ^ 32"
  shows "unat (base + i * 4) = unat base + 4 * unat i"
    and "unat (base + i * 4 + 4) = unat base + 4 * unat i + 4"
proof -
  have m: "unat (i * 4) = unat i * 4"
    using assms unat_mult_lem [of i 4] by simp
  then show k: "unat (base + i * 4) = unat base + 4 * unat i"
    using assms unat_plus_no_wrap [of base "i * 4"] by simp
  show "unat (base + i * 4 + 4) = unat base + 4 * unat i + 4"
    using assms k unat_plus_no_wrap [of "base + i * 4" 4] by simp
qed

lemma walk_no_panic:
  assumes "length (exports ni) \<le> 2 ^ 32 - 4"
      and "unat (addressOfNames content - dd_VirtualAddress (exportSymbols ni)) + 4 * unat i
             < length (exports ni)"
  shows "fetchSbomSymbols_from ni i content \<noteq> Panic p"
  using assms(2)
proof (induction "unat (numberOfNames content) - unat i" arbitrary: i content rule: less_induct)
  case less
  let ?base = "addressOfNames content - dd_VirtualAddress (exportSymbols ni)"
  show ?case
  proof (cases "i < numberOfNames content")
    case False
    then show ?thesis by (simp add: walk_done)
  next
    case lt: True
    then have dec: "unat (numberOfNames content) - unat (i + 1) < unat (numberOfNames content) - unat i"
      using word_lt_succ(1) [OF lt] by (simp add: word_less_nat_alt)
    have nw: "unat ?base + 4 * unat i + 4 < 2 ^ 32"
      using assms(1) less(2) by simp
    note ku = namePointer_offset_unat [OF nw]
    have n32: "length (exports ni) < 2 ^ 32"
      using assms(1) by simp
    have ih: "unat ?base + 4 * unat i + 4 < length (exports ni) \<Longrightarrow>
        fetchSbomSymbols_from ni (i + 1) (recordMarker name i content) \<noteq> Panic p" for name
      using less(1) [of "recordMarker name i content" "i + 1"] dec word_lt_succ(1) [OF lt]
      by simp
    show ?thesis
      using ih n32
      by (subst fetchSbomSymbols_from.simps)
         (auto simp: Let_def sizeof_uint32_def slice_bytes_def word_le_nat_alt unat_of_nat_length32 ku
            split: option.splits sum.splits)
  qed
qed


lemma sample_exports_simps:
  "sample_exports nnames addrNames fps nps tail =
     [0,0,0,0,0,0,0,0,0,0,0,0,0,0,0,0,0,0,0,0] @ le_bytes32 4 @ le_bytes32 nnames @ le_bytes32 0x3054
     @ le_bytes32 addrNames @ le_bytes32 0
     @ [104, 101, 108, 108, 111, 0] @ [115, 98, 111, 109, 0]
     @ [115, 98, 111, 109, 95, 108, 101, 110, 103, 116, 104, 0]
     @ [95, 95, 115, 118, 109, 95, 118, 101, 114, 115, 105, 111, 110, 95, 105, 110, 102, 111, 0]
     @ [0, 0] @ concat (map le_bytes32 fps) @ concat (map le_bytes32 nps) @ tail"
  by (simp add: sample_exports_def markerBytes_values bytes_of_def eval_nat_numeral)

lemma fetchExportContent_markers:
  "fetchExportContent ni = Ok content \<Longrightarrow>
     addressOfSbom content = 0 \<and> addressOfSbomLength content = 0 \<and> addressOfSvmVersion content = 0"
  by (auto simp: fetchExportContent_def zero_exportContentPE_def split: res.splits)

lemma fetchPkgs_formats_Err_skips:
  "makeNativeImage L r = Inr ni \<Longrightarrow> ni_fetchPkgs L ni = Err e \<Longrightarrow>
     fetchPkgs_formats L (makeNativeImage # formats) r pkgs = fetchPkgs_formats L formats r pkgs"
  by simp

lemma pe_no_names_content:
  "fetchExportContent pe_no_names = Ok (sample_content\<lparr>numberOfNames := 0\<rparr>)"
  by (simp add: pe_no_names_def sample_pe_def sample_exports_simps le_bytes32_def
        fetchExportContent_def fetchExportAttribute_eq zero_exportContentPE_def sample_content_def)

lemma newPE_sample:
  "length ex < 2 ^ 32 \<Longrightarrow> ex \<noteq> [] \<Longrightarrow> newPE (pe_scenario_lib (sample_pe ex)) r = Inr (NativeImagePE (sample_pe ex))"
  by (simp add: newPE_def newPE_exports_def pe_scenario_lib_def sample_pe_def Let_def unat_of_nat_length32
      flip: unat_eq_0)

lemma exportedName_first_in_bounds:
  assumes "exportedName ni content 0 = Some name"
  shows "unat (addressOfNames content - dd_VirtualAddress (exportSymbols ni)) < length (exports ni)"
proof -
  let ?k = "addressOfNames content - dd_VirtualAddress (exportSymbols ni)"
  from assms have "slice_bytes (exports ni) (unat ?k) (unat (?k + 4)) \<noteq> None"
    by (auto simp: exportedName_def Let_def split: if_splits option.splits)
  then have le: "unat ?k \<le> unat (?k + 4)" "unat (?k + 4) \<le> length (exports ni)"
    by (auto simp: slice_bytes_def split: if_splits)
  have "?k + 4 \<noteq> ?k"
    by simp
  then have "unat (?k + 4) \<noteq> unat ?k"
    by (simp only: word_unat_eq_iff, simp)
  with le show ?thesis
    by simp
qed

lemma word32_between_0_and_4:
  fixes i :: uint32
  assumes "0 < i" and "i < 4"
  shows "i = 1 \<or> i = 2 \<or> i = 3"
  using assms by unat_arith

lemma walk_stop_name:
  assumes "length (exports ni) < 2 ^ 32"
      and "i < numberOfNames content"
      and "unat (addressOfNames content - dd_VirtualAddress (exportSymbols ni) + i * 4) + 4
             < length (exports ni)"
      and "length (exports ni)
             \<le> unat (le_word (take 4 (drop (unat (addressOfNames content
                      - dd_VirtualAddress (exportSymbols ni) + i * 4)) (exports ni)))
                    - dd_VirtualAddress (exportSymbols ni))"
  shows "fetchSbomSymbols_from ni i content = Ok content"
proof -
  let ?k = "addressOfNames content - dd_VirtualAddress (exportSymbols ni) + i * 4"
  have nw: "unat ?k + 4 < 2 ^ 32"
    using assms(1,3) by simp
  have e: "unat (?k + 4) = unat ?k + 4"
    using nw unat_plus_no_wrap [of ?k 4] by simp
  show ?thesis
    using assms
    by (subst fetchSbomSymbols_from.simps)
       (simp add: Let_def sizeof_uint32_def word_le_nat_alt unat_of_nat_length32 e
          slice_bytes_def binary_Read_uint32_def)
qed

lemma exportedName_is_suffix:
  assumes "exportedName ni content i = Some name"
  shows "\<exists>b. b < length (exports ni) \<and> name = drop b (exports ni)"
proof -
  from assms obtain b :: uint32 where
    b: "\<not> (of_nat (length (exports ni)) :: uint32) \<le> b"
       "slice_bytes (exports ni) (unat b) (length (exports ni)) = Some name"
    by (auto simp: exportedName_def Let_def split: if_splits option.splits sum.splits)
  from b(2) have "unat b \<le> length (exports ni)" and nm: "name = drop (unat b) (exports ni)"
    by (auto simp: slice_bytes_def split: if_splits)
  moreover have "unat b \<noteq> length (exports ni)"
  proof
    assume "unat b = length (exports ni)"
    then have "(of_nat (length (exports ni)) :: uint32) = of_nat (unat b)"
      by simp
    then have "(of_nat (length (exports ni)) :: uint32) = b"
      by simp
    with b(1) show False
      by simp
  qed
  ultimately show ?thesis
    by (intro exI [of _ "unat b"]) simp
qed

lemma fetchExportContent_short:
  "length (exports ni) \<le> 36 \<Longrightarrow> fetchExportContent ni = Err InvalidIndex"
  by (simp add: fetchExportContent_def fetchExportAttribute_eq)

lemma elf_missing_marker:
  assumes "elf_Symbols bi = Inr si"
      and "marker_value nativeImageSbomSymbol si = 0
           \<or> marker_value nativeImageSbomLengthSymbol si = 0
           \<or> marker_value nativeImageSbomVersionSymbol si = 0"
  shows "elf_fetchPkgs L bi = Err MissingSymbols"
proof -
  obtain sbom sbomLength svmVersion where
    scan: "scanSymbols nativeImageSbomSymbol nativeImageSbomLengthSymbol
             nativeImageSbomVersionSymbol si (zero_symbol, zero_symbol, zero_symbol)
           = (sbom, sbomLength, svmVersion)"
    by (metis prod_cases3)
  from elf_scan_values [OF scan] assms(2) show ?thesis
    by (auto simp: elf_fetchPkgs_def assms(1) scan)
qed

lemma fetchPkgs_formats_never_Err: "fetchPkgs_formats L formats r pkgs \<noteq> Err e"
  by (induction formats arbitrary: pkgs) (auto split: sum.splits res.splits)

lemma fetchPkgs_readers_never_Err: "fetchPkgs_readers L readers pkgs \<noteq> Err e"
  by (induction readers arbitrary: pkgs) (auto simp: fetchPkgs_formats_never_Err split: res.splits)

lemma fetchPkgs_never_Err: "fetchPkgs L reader \<noteq> Err e"
  by (simp add: fetchPkgs_def fetchPkgs_readers_never_Err split: sum.splits)

lemma newPE_pe_wrapping:
  "newPE (pe_scenario_lib pe_wrapping) 0 = Inr (NativeImagePE pe_wrapping)"
  unfolding pe_wrapping_def
  by (rule newPE_sample) (simp_all add: le_bytes32_def)

lemma fetchExportContent_pe_wrapping:
  "fetchExportContent pe_wrapping
     = Ok (zero_exportContentPE\<lparr>numberOfNames := 1, addressOfNames := 0x2FFC\<rparr>)"
  by code_simp

lemma fetchSbomSymbols_pe_wrapping:
  "fetchSbomSymbols pe_wrapping (zero_exportContentPE\<lparr>numberOfNames := 1, addressOfNames := 0x2FFC\<rparr>)
     = Panic SliceBoundsOutOfRange"
  by (simp add: fetchSbomSymbols_def fetchSbomSymbols_from.simps zero_exportContentPE_def
        pe_wrapping_def sample_pe_def le_bytes32_def Let_def sizeof_uint32_def slice_bytes_def)

lemma pe_fetchPkgs_pe_wrapping: "pe_fetchPkgs L pe_wrapping = Panic SliceBoundsOutOfRange"
  by (simp add: pe_fetchPkgs_def fetchExportContent_pe_wrapping fetchSbomSymbols_pe_wrapping)

lemma elf_fetchPkgs_elf_low_length:
  "elf_fetchPkgs L elf_low_length = Panic SliceBoundsOutOfRange"
  by (simp add: elf_fetchPkgs_def elf_low_length_def zero_symbol_def nativeImageSbomSymbol_def
        nativeImageSbomLengthSymbol_def nativeImageSbomVersionSymbol_def find_region_def
        decompressSbom_def Let_def slice_bytes_def)

lemma fetchPkgs_scan_lib_scenario:
  "fetchPkgs scan_lib (Suc 0) = Ok [scenario_package]"
  by code_simp

lemma fetchPkgs_scan_lib_low_length:
  "fetchPkgs scan_lib 0 = Panic SliceBoundsOutOfRange"
  using elf_fetchPkgs_elf_low_length [of scan_lib]
  by (simp add: fetchPkgs_def imageformats_def newElf_def scan_lib_def)

lemma pe_fetchPkgs_pointer_invalid:
  assumes "fetchExportContent ni = Ok initial"
      and "fetchSbomSymbols ni initial = Ok content"
      and "addressOfSbom content \<noteq> 0" "addressOfSbomLength content \<noteq> 0"
          "addressOfSvmVersion content \<noteq> 0"
      and "fetchExportFunctionPointer ni
             (addressOfFunctions content - dd_VirtualAddress (exportSymbols ni))
             (addressOfSbom content) = Err InvalidIndex
           \<or> (\<exists>sbomAddress.
                 fetchExportFunctionPointer ni
                   (addressOfFunctions content - dd_VirtualAddress (exportSymbols ni))
                   (addressOfSbom content) = Ok sbomAddress)
             \<and> fetchExportFunctionPointer ni
                   (addressOfFunctions content - dd_VirtualAddress (exportSymbols ni))
                   (addressOfSbomLength content) = Err InvalidIndex"
  shows "pe_fetchPkgs L ni = Err InvalidIndex"
  using assms by (auto simp: pe_fetchPkgs_def Let_def)

section \<open>The payload decoder\<close>

text \<open>
  C1. The payload decoder is to verify \<open>lengthFieldOffset + 8 \<le> bufferLength\<close> and
  \<open>payloadStart + declaredLength \<le> bufferLength\<close> before it reads, and to answer a
  violation with a returned error and never a panic, also when the sums overflow 64
  bits. The code computes both sums in \<open>uint64\<close> and compares the wrapped result: with
  the length field at offset \<open>2^64 - 8\<close> the sum is 0, the first check passes and
  \<open>databuf[lengthStart:lengthEnd]\<close> panics; with a declared length of \<open>2^64 - 1\<close> and the
  payload at offset 1 the second sum is 0 and \<open>databuf[sbomStart:sbomEnd]\<close> panics.
\<close>

theorem decompressSbom_wrapped_offsets_panic:
  "decompressSbom L [0, 0, 0, 0, 0, 0, 0, 0] 0 0xFFFFFFFFFFFFFFF8 = Panic SliceBoundsOutOfRange
   \<and> decompressSbom L [0xFF, 0xFF, 0xFF, 0xFF, 0xFF, 0xFF, 0xFF, 0xFF] 1 0
       = Panic SliceBoundsOutOfRange"
  by (simp add: decompressSbom_def slice_bytes_def binary_Read_uint64_def Let_def)

section \<open>The component mapper\<close>

text \<open>
  C8. The mapper is total and yields one package per component, in order: the list built
  by the closing loop of \<open>decompressSbom\<close> has the length of the component list and its
  \<open>i\<close>-th entry is \<open>getPackage\<close> of the \<open>i\<close>-th component. For every component, name,
  version and group are copied whatever its properties are, and the CPEs are the
  parsed values of exactly those properties that parse, in order: a property that fails
  to parse contributes nothing and changes nothing else. A component with no valid CPE
  still gives its package.
\<close>

theorem mapper_total_one_to_one:
  "length (decompressSbom_pkgs L components []) = length components
   \<and> (\<forall>i < length components.
         decompressSbom_pkgs L components [] ! i = getPackage L (components ! i))
   \<and> (\<forall>c. pkg_Name (getPackage L c) = comp_Name c
          \<and> pkg_Version (getPackage L c) = comp_Version c
          \<and> pkg_Metadata (getPackage L c) = \<lparr>PomProperties = Some \<lparr>GroupID = comp_Group c\<rparr>\<rparr>
          \<and> pkg_CPEs (getPackage L c) =
               concat (map (\<lambda>p. case cpe_New L (prop_Value p) of Inl e \<Rightarrow> [] | Inr x \<Rightarrow> [x])
                         (comp_Properties c)))"
  by (simp add: decompressSbom_pkgs_acc getPackage_cpes_acc getPackage_def)

theorem mapper_total_one_to_one_witness:
  "(1 :: nat) < length [sample_component, bare_component]
   \<and> length (decompressSbom_pkgs (failing_lib\<lparr>cpe_New := sample_cpe_New\<rparr>)
         [sample_component, bare_component] []) = 2
   \<and> decompressSbom_pkgs (failing_lib\<lparr>cpe_New := sample_cpe_New\<rparr>)
         [sample_component, bare_component] [] ! 1
       = getPackage (failing_lib\<lparr>cpe_New := sample_cpe_New\<rparr>) bare_component
   \<and> pkg_CPEs (getPackage (failing_lib\<lparr>cpe_New := sample_cpe_New\<rparr>) sample_component)
       = [CPE [''a'', ''g'', ''n'', ''1.0'']]
   \<and> pkg_CPEs (getPackage (failing_lib\<lparr>cpe_New := sample_cpe_New\<rparr>) bare_component) = []
   \<and> pkg_Name (getPackage (failing_lib\<lparr>cpe_New := sample_cpe_New\<rparr>) bare_component) = ''m''"
  using mapper_total_one_to_one
          [of "failing_lib\<lparr>cpe_New := sample_cpe_New\<rparr>" "[sample_component, bare_component]"]
  by (simp add: sample_component_def bare_component_def sample_cpe_New_def)

section \<open>The ELF scenario\<close>

text \<open>
  C2. An ELF image whose \<open>.data\<close> section has base \<open>0x2000\<close>, whose marker
  \<open>sbom_length\<close> is at \<open>0x2010\<close> and holds little-endian 37, whose marker \<open>sbom\<close> is at
  \<open>0x2020\<close> and holds 37 bytes that inflate to the manifest text of the scenario, and
  whose third marker \<open>__svm_version_info\<close> is present with a nonzero value: extraction
  returns exactly one package, with name \<open>n\<close>, version \<open>1.0\<close>, group \<open>g\<close> and no CPE.
\<close>

theorem elf_scenario_one_package:
  assumes syms: "elf_Symbols bi = Inr si"
      and sb: "marker_value nativeImageSbomSymbol si = 0x2020"
      and sl: "marker_value nativeImageSbomLengthSymbol si = 0x2010"
      and sv: "marker_value nativeImageSbomVersionSymbol si \<noteq> 0"
      and sec: "find_region (elf_Sections bi) ''.data'' = Some dataSection"
      and base: "reg_Addr dataSection = 0x2000"
      and dat: "reg_Data dataSection = Inr data"
      and len: "take 8 (drop 0x10 data) = [37, 0, 0, 0, 0, 0, 0, 0]"
      and pl: "length payload = 37" "take 37 (drop 0x20 data) = payload"
      and gz: "gzip_ReadAll L payload = Inr (bytes_of scenario_text)"
      and js: "json_Unmarshal L (bytes_of scenario_text) = Inr scenario_document"
  shows "elf_fetchPkgs L bi = Ok [scenario_package]"
proof -
  obtain sbom sbomLength svmVersion where
    scan: "scanSymbols nativeImageSbomSymbol nativeImageSbomLengthSymbol
             nativeImageSbomVersionSymbol si (zero_symbol, zero_symbol, zero_symbol)
           = (sbom, sbomLength, svmVersion)"
    by (metis prod_cases3)
  from elf_scan_values [OF scan] sb sl sv
  have vals: "sym_Value sbom = 0x2020" "sym_Value sbomLength = 0x2010" "sym_Value svmVersion \<noteq> 0"
    by simp_all
  have dec: "decompressSbom L data 0x20 0x10 = Ok (map (getPackage L) (cdx_Components scenario_document))"
    using len pl gz js by (intro decompressSbom_scenario) simp_all
  have pk: "map (getPackage L) (cdx_Components scenario_document) = [scenario_package]"
    by (simp add: scenario_document_def scenario_package_def getPackage_def nativeImageCatalogerName_def)
  show ?thesis
    by (simp add: elf_fetchPkgs_def syms scan vals sec base dat Let_def dec pk)
qed

theorem elf_scenario_one_package_witness:
  "elf_fetchPkgs scenario_lib scenario_elf = Ok [scenario_package]"
proof -
  let ?si = "[\<lparr>sym_Name = ''main'', sym_Value = 0x1000\<rparr>,
         \<lparr>sym_Name = ''__svm_version_info'', sym_Value = 0x2008\<rparr>,
         \<lparr>sym_Name = ''sbom_length'', sym_Value = 0x2010\<rparr>,
         \<lparr>sym_Name = ''sbom'', sym_Value = (0x2020 :: uint64)\<rparr>]"
  let ?sec = "\<lparr>reg_Name = ''.data'', reg_Addr = 0x2000, reg_Data = Inr scenario_data\<rparr>"
  have h1: "elf_Symbols scenario_elf = Inr ?si"
    by (simp add: scenario_elf_def)
  have h2: "marker_value nativeImageSbomSymbol ?si = 0x2020"
    by (simp add: marker_value_def nativeImageSbomSymbol_def)
  have h3: "marker_value nativeImageSbomLengthSymbol ?si = 0x2010"
    by (simp add: marker_value_def nativeImageSbomLengthSymbol_def)
  have h4: "marker_value nativeImageSbomVersionSymbol ?si \<noteq> 0"
    by (simp add: marker_value_def nativeImageSbomVersionSymbol_def)
  have h5: "find_region (elf_Sections scenario_elf) ''.data'' = Some ?sec"
    by (simp add: scenario_elf_def find_region_def)
  have h6: "reg_Addr ?sec = 0x2000" and h7: "reg_Data ?sec = Inr scenario_data"
    by simp_all
  have h8: "take 8 (drop 0x10 scenario_data) = [37, 0, 0, 0, 0, 0, 0, 0]"
    by (simp add: scenario_data_def scenario_payload_def eval_nat_numeral)
  have h9: "length scenario_payload = 37"
    by (simp add: scenario_payload_def)
  have h10: "take 37 (drop 0x20 scenario_data) = scenario_payload"
    by (simp add: scenario_data_def scenario_payload_def)
  have h11: "gzip_ReadAll scenario_lib scenario_payload = Inr (bytes_of scenario_text)"
    by (simp add: scenario_lib_def)
  have h12: "json_Unmarshal scenario_lib (bytes_of scenario_text) = Inr scenario_document"
    by (simp add: scenario_lib_def)
  show ?thesis
    by (rule elf_scenario_one_package [OF h1 h2 h3 h4 h5 h6 h7 h8 h9 h10 h11 h12])
qed

section \<open>The PE export walk\<close>

text \<open>
  C7. For every PE image whose export directory is read with \<open>numberOfNames = 0\<close>, the
  marker search returns the content as it was, with all three recorded indices zero; it
  does so whatever the exports buffer holds, so no entry of the name-pointer array is
  read; extraction for the image returns no packages (it ends with the missing-symbols
  error), and in the detector the image adds nothing to the package list.
\<close>

theorem pe_no_names_no_markers:
  assumes "fetchExportContent ni = Ok content" and "numberOfNames content = 0"
  shows "fetchSbomSymbols ni content = Ok content
       \<and> (\<forall>ex. fetchSbomSymbols (ni\<lparr>exports := ex\<rparr>) content = Ok content)
       \<and> addressOfSbom content = 0 \<and> addressOfSbomLength content = 0
       \<and> addressOfSvmVersion content = 0
       \<and> pe_fetchPkgs L ni = Err MissingSymbols
       \<and> (makeNativeImage L r = Inr (NativeImagePE ni) \<longrightarrow>
            fetchPkgs_formats L (makeNativeImage # formats) r pkgs
              = fetchPkgs_formats L formats r pkgs)"
proof -
  have walk: "fetchSbomSymbols ni' content = Ok content" for ni'
    using assms(2) by (simp add: fetchSbomSymbols_def walk_done)
  note zero = fetchExportContent_markers [OF assms(1)]
  have pe: "pe_fetchPkgs L ni = Err MissingSymbols"
    by (simp add: pe_fetchPkgs_def assms(1) walk zero)
  show ?thesis
    using walk zero pe by simp
qed

theorem pe_no_names_no_markers_witness:
  "fetchExportContent pe_no_names = Ok (sample_content\<lparr>numberOfNames := 0\<rparr>)
   \<and> newPE (pe_scenario_lib pe_no_names) 0 = Inr (NativeImagePE pe_no_names)
   \<and> pe_fetchPkgs (pe_scenario_lib pe_no_names) pe_no_names = Err MissingSymbols
   \<and> fetchPkgs_formats (pe_scenario_lib pe_no_names) [newPE] 0 [] = Ok []"
proof -
  have h2: "numberOfNames (sample_content\<lparr>numberOfNames := 0\<rparr>) = 0"
    by simp
  have np: "newPE (pe_scenario_lib pe_no_names) 0 = Inr (NativeImagePE pe_no_names)"
    unfolding pe_no_names_def
    by (rule newPE_sample) (simp_all add: sample_exports_simps le_bytes32_def)
  from pe_no_names_no_markers [OF pe_no_names_content h2, of "pe_scenario_lib pe_no_names" newPE 0 "[]" "[]"]
  show ?thesis
    using np pe_no_names_content by simp
qed

section \<open>PE: a marker at index zero\<close>

text \<open>
  C10. In the PE pathway a marker counts as found when its recorded name-array index is
  not zero. As stated for every image in which a marker name occupies index 0, the
  claim fails where the same name is exported again at a later index: the later index
  is recorded and the image is processed. In \<open>pe_sbom_twice\<close> the name \<open>sbom\<close> is at the
  indices 0 and 3, the walk records 3 and extraction returns the package.
\<close>

theorem pe_sbom_twice_counterexample:
  "fetchExportContent pe_sbom_twice = Ok sample_content
   \<and> namesMarker pe_sbom_twice sample_content 0 Sbom
   \<and> fetchSbomSymbols pe_sbom_twice sample_content
       = Ok (sample_content\<lparr>addressOfSbom := 3, addressOfSbomLength := 1, addressOfSvmVersion := 2\<rparr>)
   \<and> pe_fetchPkgs scenario_lib pe_sbom_twice = Ok [scenario_package]"
  by code_simp

text \<open>
  C10, amended. For every PE image whose export directory is read, whose exports buffer
  is at most \<open>2^32 - 4\<close> bytes long, and in which a marker name is the exported name at
  index 0 of the name-pointer array and at no later index below \<open>numberOfNames\<close>: the
  walk ends with the index 0 recorded for that marker, the zero-value check takes the
  marker for missing, and extraction returns no packages (the missing-symbols error),
  although the marker is present.
\<close>

theorem pe_marker_only_at_index_zero_is_missing:
  assumes content: "fetchExportContent ni = Ok content"
      and size: "length (exports ni) \<le> 2 ^ 32 - 4"
      and names: "0 < numberOfNames content"
      and first: "namesMarker ni content 0 m"
      and later: "\<forall>i. 0 < i \<and> i < numberOfNames content \<longrightarrow> \<not> namesMarker ni content i m"
  shows "(\<exists>content'. fetchSbomSymbols ni content = Ok content' \<and> markerIndex m content' = 0)
       \<and> pe_fetchPkgs L ni = Err MissingSymbols"
proof -
  from first obtain name where name: "exportedName ni content 0 = Some name"
    by (auto simp: namesMarker_def split: option.splits)
  have inb: "unat (addressOfNames content - dd_VirtualAddress (exportSymbols ni)) + 4 * unat (0 :: uint32)
      < length (exports ni)"
    using exportedName_first_in_bounds [OF name] by simp
  have "fetchSbomSymbols_from ni 0 content \<noteq> Panic p" for p
    by (rule walk_no_panic [OF size inb])
  moreover have "fetchSbomSymbols_from ni 0 content \<noteq> Err e" for e
    by (rule walk_never_Err)
  ultimately obtain content' where walk: "fetchSbomSymbols_from ni 0 content = Ok content'"
    by (cases "fetchSbomSymbols_from ni 0 content") auto
  have zero: "markerIndex m content = 0"
    using fetchExportContent_markers [OF content] by (cases m) simp_all
  from walk_marker_index [OF walk, of m] later zero
  have idx: "markerIndex m content' = 0"
    by (metis word_neq_0_conv)
  then have miss: "addressOfSbom content' = 0 \<or> addressOfSbomLength content' = 0
      \<or> addressOfSvmVersion content' = 0"
    by (cases m) simp_all
  have "pe_fetchPkgs L ni = Err MissingSymbols"
    using miss by (simp add: pe_fetchPkgs_def content fetchSbomSymbols_def walk)
  with walk idx show ?thesis
    by (simp add: fetchSbomSymbols_def)
qed

theorem pe_marker_only_at_index_zero_is_missing_witness:
  "namesMarker pe_sbom_first sample_content 0 Sbom
   \<and> (\<exists>content'. fetchSbomSymbols pe_sbom_first sample_content = Ok content'
         \<and> markerIndex Sbom content' = 0)
   \<and> pe_fetchPkgs scenario_lib pe_sbom_first = Err MissingSymbols"
proof -
  have h1: "fetchExportContent pe_sbom_first = Ok sample_content"
    by code_simp
  have h2: "length (exports pe_sbom_first) \<le> 2 ^ 32 - 4"
    by (simp add: pe_sbom_first_def sample_pe_def sample_exports_simps le_bytes32_def)
  have h3: "0 < numberOfNames sample_content"
    by (simp add: sample_content_def)
  have h4: "namesMarker pe_sbom_first sample_content 0 Sbom"
    by code_simp
  have n1: "\<not> namesMarker pe_sbom_first sample_content 1 Sbom"
    by code_simp
  have n2: "\<not> namesMarker pe_sbom_first sample_content 2 Sbom"
    by code_simp
  have n3: "\<not> namesMarker pe_sbom_first sample_content 3 Sbom"
    by code_simp
  have h5: "\<forall>i. 0 < i \<and> i < numberOfNames sample_content
      \<longrightarrow> \<not> namesMarker pe_sbom_first sample_content i Sbom"
  proof (intro allI impI)
    fix i :: uint32
    assume "0 < i \<and> i < numberOfNames sample_content"
    then have "i = 1 \<or> i = 2 \<or> i = 3"
      using word32_between_0_and_4 [of i] by (simp add: sample_content_def)
    with n1 n2 n3 show "\<not> namesMarker pe_sbom_first sample_content i Sbom"
      by auto
  qed
  from pe_marker_only_at_index_zero_is_missing [OF h1 h2 h3 h4 h5, of scenario_lib] h4
  show ?thesis
    by simp
qed

section \<open>PE: reads that end where the buffer ends\<close>

text \<open>
  C6. Every bounds check of the PE export pathway is said to compare the end of the read
  with the buffer length by \<open>\<ge>\<close>, so that every read ending exactly at the end of the
  exports buffer is rejected. The read of a name is checked by its start offset only
  (\<open>symbolBase \<ge> n\<close>) and always runs to the end of the buffer: in \<open>pe_name_at_end\<close> the
  name \<open>sbom\<close> with its NUL byte fills the last five bytes, 116 to 120, of a buffer of 121
  bytes; it is read, matched and recorded at index 1, and extraction returns the
  package.
\<close>

theorem pe_name_at_end_counterexample:
  "length (exports pe_name_at_end) = 121
   \<and> unat (nameOffset pe_name_at_end sample_content 1) = 116
   \<and> drop 116 (exports pe_name_at_end) = sbomBytes
   \<and> exportedName pe_name_at_end sample_content 1 = Some sbomBytes
   \<and> fetchSbomSymbols pe_name_at_end sample_content
       = Ok (sample_content\<lparr>addressOfSbom := 1, addressOfSbomLength := 2, addressOfSvmVersion := 3\<rparr>)
   \<and> pe_fetchPkgs scenario_lib pe_name_at_end = Ok [scenario_package]"
  by code_simp

text \<open>
  C6, amended. The three reads of four bytes (a header attribute, a function-pointer
  entry, a name-pointer entry) compare the end offset of the read with the length of
  the exports buffer by \<open>\<ge>\<close>: such a read that ends exactly at the end of the buffer
  is rejected (with the invalid-index error for the first two, by ending the marker
  search for the third), although the slice would be in bounds. The read of a name is
  not rejected for reaching the end of the buffer: where the checks let it through it
  is the rest of the buffer from an offset inside it, and the walk goes on with it.
\<close>

theorem pe_fixed_width_reads_reject_exact_fit:
  "(20 + a * 4 + 4 = length (exports ni) \<longrightarrow>
      fetchExportAttribute ni a = Err InvalidIndex
      \<and> slice_bytes (exports ni) (20 + a * 4) (20 + a * 4 + 4) \<noteq> None)
   \<and> (length (exports ni) < 2 ^ 32 \<and> unat (functionsBase + f * 4) + 4 = length (exports ni) \<longrightarrow>
        fetchExportFunctionPointer ni functionsBase f = Err InvalidIndex
        \<and> slice_bytes (exports ni) (unat (functionsBase + f * 4))
              (unat (functionsBase + f * 4) + 4) \<noteq> None)
   \<and> (length (exports ni) < 2 ^ 32 \<and> i < numberOfNames content
        \<and> unat (namePointerOffset ni content i) + 4 = length (exports ni) \<longrightarrow>
        fetchSbomSymbols_from ni i content = Ok content
        \<and> slice_bytes (exports ni) (unat (namePointerOffset ni content i))
              (unat (namePointerOffset ni content i) + 4) \<noteq> None)
   \<and> (i' < numberOfNames content \<and> exportedName ni content i' = Some name \<longrightarrow>
        (\<exists>b. b < length (exports ni) \<and> name = drop b (exports ni))
        \<and> fetchSbomSymbols_from ni i' content
            = fetchSbomSymbols_from ni (i' + 1) (recordMarker name i' content))"
  by (auto simp: fetchExportAttribute_eq fetchExportFunctionPointer_eq namePointerOffset_def
        slice_bytes_def exportedName_is_suffix walk_step
        intro!: walk_stop_pointer)

theorem pe_fixed_width_reads_reject_exact_fit_witness:
  "fetchExportAttribute pe_header_only 3 = Err InvalidIndex
   \<and> slice_bytes (exports pe_header_only) 32 36 = Some (le_bytes32 0x3064)
   \<and> fetchExportFunctionPointer pe_regular 0x64 4 = Err InvalidIndex
   \<and> fetchSbomSymbols_from pe_regular 4 (sample_content\<lparr>numberOfNames := 5\<rparr>)
       = Ok (sample_content\<lparr>numberOfNames := 5\<rparr>)
   \<and> fetchSbomSymbols_from pe_name_at_end 1 sample_content
       = fetchSbomSymbols_from pe_name_at_end 2 (sample_content\<lparr>addressOfSbom := 1\<rparr>)"
proof -
  have hl: "20 + 3 * 4 + 4 = length (exports pe_header_only)"
    by code_simp
  have sl: "slice_bytes (exports pe_header_only) 32 36 = Some (le_bytes32 0x3064)"
    by code_simp
  have len: "length (exports pe_regular) = 120"
    by code_simp
  have f4: "unat (0x64 + 4 * 4 :: uint32) = 116"
    by simp
  have k4: "unat (namePointerOffset pe_regular (sample_content\<lparr>numberOfNames := 5\<rparr>) 4) = 116"
    by code_simp
  have n5: "(4 :: uint32) < numberOfNames (sample_content\<lparr>numberOfNames := 5\<rparr>)"
    by simp
  have n1: "(1 :: uint32) < numberOfNames sample_content"
    by (simp add: sample_content_def)
  have en: "exportedName pe_name_at_end sample_content 1 = Some sbomBytes"
    by code_simp
  have rm: "recordMarker sbomBytes 1 sample_content = sample_content\<lparr>addressOfSbom := 1\<rparr>"
    by (simp add: recordMarker_def HasPrefix_def)
  from pe_fixed_width_reads_reject_exact_fit
         [of 3 pe_header_only "0x64" 4 4 "sample_content\<lparr>numberOfNames := 5\<rparr>" 1 sbomBytes]
       pe_fixed_width_reads_reject_exact_fit
         [of 3 pe_regular "0x64" 4 4 "sample_content\<lparr>numberOfNames := 5\<rparr>" 1 sbomBytes]
       pe_fixed_width_reads_reject_exact_fit
         [of 3 pe_name_at_end "0x64" 4 1 sample_content 1 sbomBytes]
  show ?thesis
    using hl sl len f4 k4 n5 n1 en rm by simp
qed

section \<open>Images without a marker\<close>

text \<open>
  C3. A binary whose format is recognised and in which a marker is absent is to give an
  empty package list and no error from \<open>fetchPkgs\<close>. The ELF extractor and the Mach-O
  extractor with a symbol table do return the missing-symbols error, which the detector
  drops (\<open>elf_missing_marker\<close>). Two inputs break it. The PE image \<open>pe_wrapping\<close> is
  recognised by \<open>newPE\<close> and exports no marker; its export directory declares one name
  and puts the name-pointer array 4 bytes below the directory, so the offset \<open>k\<close> of the
  walk is \<open>2^32 - 4\<close>, \<open>k + sz\<close> wraps to 0 and passes the check against \<open>n\<close>, and
  \<open>ni.exports[k : k+sz]\<close> panics: \<open>fetchPkgs\<close> returns nothing. A Mach-O image without
  a symbol table has a nil \<open>Symtab\<close>, which the extractor dereferences.
\<close>

theorem missing_marker_images_panic:
  "newPE (pe_scenario_lib pe_wrapping) 0 = Inr (NativeImagePE pe_wrapping)
   \<and> fetchExportContent pe_wrapping
       = Ok (zero_exportContentPE\<lparr>numberOfNames := 1, addressOfNames := 0x2FFC\<rparr>)
   \<and> \<not> namesMarker pe_wrapping
           (zero_exportContentPE\<lparr>numberOfNames := 1, addressOfNames := 0x2FFC\<rparr>) 0 Sbom
   \<and> fetchPkgs (pe_scenario_lib pe_wrapping) 0 = Panic SliceBoundsOutOfRange
   \<and> macho_fetchPkgs L macho_no_symtab = Panic NilPointerDereference"
proof -
  have nm: "\<not> namesMarker pe_wrapping
           (zero_exportContentPE\<lparr>numberOfNames := 1, addressOfNames := 0x2FFC\<rparr>) 0 Sbom"
    by (simp add: namesMarker_def exportedName_def zero_exportContentPE_def pe_wrapping_def
          sample_pe_def le_bytes32_def Let_def slice_bytes_def)
  have top: "fetchPkgs (pe_scenario_lib pe_wrapping) 0 = Panic SliceBoundsOutOfRange"
    using newPE_pe_wrapping pe_fetchPkgs_pe_wrapping [of "pe_scenario_lib pe_wrapping"]
    by (simp add: fetchPkgs_def imageformats_def newElf_def newMachO_def pe_scenario_lib_def
          scenario_lib_def failing_lib_def)
  have mo: "macho_fetchPkgs L macho_no_symtab = Panic NilPointerDereference"
    by (simp add: macho_fetchPkgs_def macho_no_symtab_def)
  show ?thesis
    using newPE_pe_wrapping fetchExportContent_pe_wrapping nm top mo by simp
qed

section \<open>The scan\<close>

text \<open>
  C9. Every failure of one image other than a resolver failure is to become an empty
  contribution, and the scan is never to abort over one malformed binary. Every
  returned error is indeed dropped by \<open>fetchPkgs\<close> (\<open>fetchPkgs_never_Err\<close>), but a panic
  is not an error: in the ELF image \<open>elf_low_length\<close> the marker \<open>sbom_length\<close> lies 8 bytes
  below the base of \<open>.data\<close>, the offset of the length field is \<open>2^64 - 8\<close>, its end
  wraps to 0 and \<open>decompressSbom\<close> panics on the slice. A scan of the well-formed file
  alone returns its package; the scan of both files panics and returns nothing.
\<close>

theorem scan_aborts_on_malformed_elf:
  "Catalog scan_lib (scan_resolver [1]) = Ok [scenario_package]
   \<and> elf_fetchPkgs scan_lib elf_low_length = Panic SliceBoundsOutOfRange
   \<and> Catalog scan_lib (scan_resolver [0, 1]) = Panic SliceBoundsOutOfRange"
  using fetchPkgs_scan_lib_scenario fetchPkgs_scan_lib_low_length
    elf_fetchPkgs_elf_low_length [of scan_lib]
  by (simp add: Catalog_def scan_resolver_def scan_lib_def)

section \<open>The detector\<close>



section \<open>PE: the bounds checks of the export walk\<close>

text \<open>
  C5. Every indexed read of the PE export walk is to be preceded by a bounds check, and
  an index past the end of the exports buffer is to abort the image with the
  invalid-index error, also in the walk over the name-pointer array. The walk over the
  name-pointer array does check, but it answers a failed check by ending the search in
  silence: in \<open>pe_overlong_names\<close> five names are declared, the fifth name pointer would
  be read from the bytes 116 to 120 of a buffer of 119 bytes, the walk stops there with
  the three markers it has found, and extraction returns the package; no invalid-index
  error is reported and the image is not aborted.
\<close>

theorem pe_overlong_names_counterexample:
  "fetchExportContent pe_overlong_names = Ok (sample_content\<lparr>numberOfNames := 5\<rparr>)
   \<and> length (exports pe_overlong_names) = 119
   \<and> unat (namePointerOffset pe_overlong_names (sample_content\<lparr>numberOfNames := 5\<rparr>) 4) + 4 = 120
   \<and> fetchSbomSymbols pe_overlong_names (sample_content\<lparr>numberOfNames := 5\<rparr>)
       = Ok (sample_content\<lparr>numberOfNames := 5, addressOfSbom := 1, addressOfSbomLength := 2,
               addressOfSvmVersion := 3\<rparr>)
   \<and> pe_fetchPkgs scenario_lib pe_overlong_names = Ok [scenario_package]"
  by code_simp

text \<open>
  C5, amended. Throughout, the offsets are those whose 32-bit arithmetic does not wrap.
  A header attribute and a function-pointer entry are read only after the check of the
  end offset of the read against the length of the exports buffer, and an end offset at
  or past that length is the invalid-index error: extraction for the image ends with
  that error, for a header attribute as for the function pointer of \<open>sbom\<close> or of
  \<open>sbom_length\<close>, and the detector goes on to the next format with its package list
  unchanged, so processing is aborted for this image only. In the walk over the
  name-pointer array, a name pointer that would end at or past the end of the buffer,
  and, behind a name pointer read in bounds, a name whose offset is at or past the end
  of the buffer, are not reported: they end the marker search without an error, and the
  content is returned as it is at that index.
\<close>

theorem pe_export_reads_checked:
  "fetchExportAttribute ni a =
     (if length (exports ni) \<le> 20 + a * 4 + 4 then Err InvalidIndex
      else Ok (le_word (take 4 (drop (20 + a * 4) (exports ni)))))
   \<and> (length (exports ni) \<le> 36 \<longrightarrow> pe_fetchPkgs L ni = Err InvalidIndex)
   \<and> (length (exports ni) < 2 ^ 32 \<and> unat (functionsBase + f * 4) + 4 < 2 ^ 32 \<longrightarrow>
        fetchExportFunctionPointer ni functionsBase f =
          (if length (exports ni) \<le> unat (functionsBase + f * 4) + 4 then Err InvalidIndex
           else Ok (le_word (take 4 (drop (unat (functionsBase + f * 4)) (exports ni))))))
   \<and> (fetchExportContent ni = Ok initial \<and> fetchSbomSymbols ni initial = Ok content
        \<and> addressOfSbom content \<noteq> 0 \<and> addressOfSbomLength content \<noteq> 0
        \<and> addressOfSvmVersion content \<noteq> 0
        \<and> length (exports ni) < 2 ^ 32
        \<and> unat (functionPointerOffset ni content (addressOfSbom content)) + 4 < 2 ^ 32
        \<and> unat (functionPointerOffset ni content (addressOfSbomLength content)) + 4 < 2 ^ 32
        \<and> (length (exports ni) \<le> unat (functionPointerOffset ni content (addressOfSbom content)) + 4
             \<or> length (exports ni)
                 \<le> unat (functionPointerOffset ni content (addressOfSbomLength content)) + 4) \<longrightarrow>
        pe_fetchPkgs L ni = Err InvalidIndex)
   \<and> (pe_fetchPkgs L ni = Err InvalidIndex \<and> makeNativeImage L r = Inr (NativeImagePE ni) \<longrightarrow>
        fetchPkgs_formats L (makeNativeImage # formats) r pkgs
          = fetchPkgs_formats L formats r pkgs)
   \<and> (length (exports ni) < 2 ^ 32 \<and> i < numberOfNames current
        \<and> unat (namePointerOffset ni current i) + 4 < 2 ^ 32
        \<and> length (exports ni) \<le> unat (namePointerOffset ni current i) + 4 \<longrightarrow>
        fetchSbomSymbols_from ni i current = Ok current)
   \<and> (length (exports ni) < 2 ^ 32 \<and> i' < numberOfNames current
        \<and> unat (namePointerOffset ni current i') + 4 < length (exports ni)
        \<and> length (exports ni) \<le> unat (nameOffset ni current i') \<longrightarrow>
        fetchSbomSymbols_from ni i' current = Ok current)"
proof -
  have short: "pe_fetchPkgs L ni = Err InvalidIndex" if "length (exports ni) \<le> 36"
    using fetchExportContent_short [OF that] by (simp add: pe_fetchPkgs_def)
  have ptr: "pe_fetchPkgs L ni = Err InvalidIndex"
    if c: "fetchExportContent ni = Ok initial" "fetchSbomSymbols ni initial = Ok content"
      and nz: "addressOfSbom content \<noteq> 0" "addressOfSbomLength content \<noteq> 0"
          "addressOfSvmVersion content \<noteq> 0"
      and n32: "length (exports ni) < 2 ^ 32"
      and nw: "unat (functionPointerOffset ni content (addressOfSbom content)) + 4 < 2 ^ 32"
          "unat (functionPointerOffset ni content (addressOfSbomLength content)) + 4 < 2 ^ 32"
      and out: "length (exports ni) \<le> unat (functionPointerOffset ni content (addressOfSbom content)) + 4
             \<or> length (exports ni)
                 \<le> unat (functionPointerOffset ni content (addressOfSbomLength content)) + 4"
  proof (rule pe_fetchPkgs_pointer_invalid [OF c nz])
    show "fetchExportFunctionPointer ni
             (addressOfFunctions content - dd_VirtualAddress (exportSymbols ni))
             (addressOfSbom content) = Err InvalidIndex
           \<or> (\<exists>sbomAddress.
                 fetchExportFunctionPointer ni
                   (addressOfFunctions content - dd_VirtualAddress (exportSymbols ni))
                   (addressOfSbom content) = Ok sbomAddress)
             \<and> fetchExportFunctionPointer ni
                   (addressOfFunctions content - dd_VirtualAddress (exportSymbols ni))
                   (addressOfSbomLength content) = Err InvalidIndex"
      using n32 nw out
      by (auto simp: fetchExportFunctionPointer_eq functionPointerOffset_def)
  qed
  show ?thesis
    using short ptr
    by (auto simp: fetchExportAttribute_eq fetchExportFunctionPointer_eq
          namePointerOffset_def nameOffset_def
          intro: walk_stop_pointer walk_stop_name)
qed

theorem pe_export_reads_checked_witness:
  "fetchExportAttribute pe_stray_name 1 = Ok 4
   \<and> fetchExportFunctionPointer pe_stray_name 0x54 1 = Ok 0x2020
   \<and> fetchSbomSymbols_from pe_stray_name 5 (sample_content\<lparr>numberOfNames := 8\<rparr>)
       = Ok (sample_content\<lparr>numberOfNames := 8\<rparr>)
   \<and> fetchSbomSymbols_from pe_stray_name 1 (sample_content\<lparr>numberOfNames := 8\<rparr>)
       = Ok (sample_content\<lparr>numberOfNames := 8\<rparr>)
   \<and> pe_fetchPkgs (pe_scenario_lib pe_header_only) pe_header_only = Err InvalidIndex
   \<and> fetchPkgs_formats (pe_scenario_lib pe_header_only) [newPE] 0 [] = Ok []
   \<and> pe_fetchPkgs scenario_lib (pe_functions_at 0x70) = Err InvalidIndex
   \<and> pe_fetchPkgs scenario_lib (pe_functions_at 0x6C) = Err InvalidIndex"
proof -
  let ?c8 = "sample_content\<lparr>numberOfNames := 8\<rparr>"
  let ?c70 = "sample_content\<lparr>addressOfFunctions := 0x3070\<rparr>"
  let ?c6C = "sample_content\<lparr>addressOfFunctions := 0x306C\<rparr>"
  let ?m = "\<lambda>c. c\<lparr>addressOfSbom := 1, addressOfSbomLength := 2, addressOfSvmVersion := 3\<rparr>"
  have len: "length (exports pe_stray_name) = 120"
    by code_simp
  have a1: "le_word (take 4 (drop (20 + 1 * 4) (exports pe_stray_name))) = (4 :: uint32)"
    by code_simp
  have f1: "unat (0x54 + 1 * 4 :: uint32) = 88"
    by simp
  have f2: "le_word (take 4 (drop 88 (exports pe_stray_name))) = (0x2020 :: uint32)"
    by code_simp
  have k5: "unat (namePointerOffset pe_stray_name ?c8 5) = 120"
    by code_simp
  have k1: "unat (namePointerOffset pe_stray_name ?c8 1) = 104"
    by code_simp
  have s1: "unat (nameOffset pe_stray_name ?c8 1) = 4096"
    by code_simp
  have n8: "(5 :: uint32) < numberOfNames ?c8" "(1 :: uint32) < numberOfNames ?c8"
    by simp_all
  have hl: "length (exports pe_header_only) = 36"
    by code_simp
  have np: "newPE (pe_scenario_lib pe_header_only) 0 = Inr (NativeImagePE pe_header_only)"
    unfolding pe_header_only_def
    by (rule newPE_sample) (simp_all add: le_bytes32_def)
  have c70: "fetchExportContent (pe_functions_at 0x70) = Ok ?c70"
            "fetchSbomSymbols (pe_functions_at 0x70) ?c70 = Ok (?m ?c70)"
            "length (exports (pe_functions_at 0x70)) = 120"
            "unat (functionPointerOffset (pe_functions_at 0x70) (?m ?c70) 1) = 116"
            "unat (functionPointerOffset (pe_functions_at 0x70) (?m ?c70) 2) = 120"
    by code_simp+
  have c6C: "fetchExportContent (pe_functions_at 0x6C) = Ok ?c6C"
            "fetchSbomSymbols (pe_functions_at 0x6C) ?c6C = Ok (?m ?c6C)"
            "length (exports (pe_functions_at 0x6C)) = 120"
            "unat (functionPointerOffset (pe_functions_at 0x6C) (?m ?c6C) 1) = 112"
            "unat (functionPointerOffset (pe_functions_at 0x6C) (?m ?c6C) 2) = 116"
    by code_simp+
  have stray: "fetchExportAttribute pe_stray_name 1 = Ok 4
      \<and> fetchExportFunctionPointer pe_stray_name 0x54 1 = Ok 0x2020
      \<and> fetchSbomSymbols_from pe_stray_name 5 ?c8 = Ok ?c8
      \<and> fetchSbomSymbols_from pe_stray_name 1 ?c8 = Ok ?c8"
    using pe_export_reads_checked
         [where ni = pe_stray_name and a = 1 and functionsBase = "0x54" and f = 1
            and i = 5 and current = ?c8 and i' = 1 and L = scenario_lib
            and initial = sample_content and content = sample_content
            and makeNativeImage = newPE and r = 0 and formats = "[]" and pkgs = "[]"]
      len a1 f1 f2 k5 k1 s1 n8
    by simp
  have header: "pe_fetchPkgs (pe_scenario_lib pe_header_only) pe_header_only = Err InvalidIndex
      \<and> fetchPkgs_formats (pe_scenario_lib pe_header_only) [newPE] 0 [] = Ok []"
    using pe_export_reads_checked
         [where ni = pe_header_only and a = 1 and functionsBase = "0x54" and f = 1
            and i = 5 and current = ?c8 and i' = 1 and L = "pe_scenario_lib pe_header_only"
            and initial = sample_content and content = sample_content
            and makeNativeImage = newPE and r = 0 and formats = "[]" and pkgs = "[]"]
      hl np
    by simp
  have p70: "pe_fetchPkgs scenario_lib (pe_functions_at 0x70) = Err InvalidIndex"
    using pe_export_reads_checked
         [where ni = "pe_functions_at 0x70" and a = 1 and functionsBase = "0x54" and f = 1
            and i = 5 and current = ?c8 and i' = 1 and L = scenario_lib
            and initial = ?c70 and content = "?m ?c70"
            and makeNativeImage = newPE and r = 0 and formats = "[]" and pkgs = "[]"]
      c70
    by (simp add: sample_content_def)
  have p6C: "pe_fetchPkgs scenario_lib (pe_functions_at 0x6C) = Err InvalidIndex"
    using pe_export_reads_checked
         [where ni = "pe_functions_at 0x6C" and a = 1 and functionsBase = "0x54" and f = 1
            and i = 5 and current = ?c8 and i' = 1 and L = scenario_lib
            and initial = ?c6C and content = "?m ?c6C"
            and makeNativeImage = newPE and r = 0 and formats = "[]" and pkgs = "[]"]
      c6C
    by (simp add: sample_content_def)
  from stray header p70 p6C show ?thesis
    by simp
qed

end
